theory Spec2Isabelle
  imports Complex_Main "HOL-Library.AList"
begin

section \<open>Data model\<close>

text \<open>
  The two strategy classes of the repository, \<open>QuadProgStrategy\<close>
  (\<open>strategies/quadprog_strategy.py\<close>) and \<open>MeanReversionStrategy\<close>
  (\<open>strategies/portfolio_mean_reversion.py\<close>), are embedded as functions on an explicit
  strategy state. Python floats are idealised as rationals (no rounding, no NaN, no
  infinities); Python ints are \<open>int\<close>. A Python \<open>dict\<close> that is iterated
  (\<open>bars\<close>, \<open>signal_strength\<close>, \<open>unit_weights\<close>) is an association list in
  insertion order, with \<open>AList.update\<close> for \<open>d[k] = v\<close>; a dict that is only indexed is a
  map, and indexing a missing key raises \<open>KeyError\<close>.
\<close>

type_synonym symbol = string

datatype py_error = KeyError | IndexError | ZeroDivisionError | ValueError

text \<open>\<open>BarData\<close>: the three prices \<open>on_bars\<close> reads.\<close>

record bar_data =
  high_price :: rat
  low_price :: rat
  close_price :: rat

text \<open>
  \<open>ArrayManager\<close> belongs to the \<open>vnpy\<close> library. It is seen through what \<open>on_bars\<close>
  reads of it: the flag \<open>inited\<close>, \<open>atr(window, array=True)\<close> and \<open>rsi(window)\<close>. Its
  \<open>update_bar\<close> is a parameter of \<open>on_bars\<close>.
\<close>

record array_manager =
  inited :: bool
  atr :: "nat \<Rightarrow> rat list"
  rsi :: "nat \<Rightarrow> rat"

text \<open>Calls to the execution collaborator, in the order they are made.\<close>

datatype event = SetTarget symbol int | RebalancePortfolio | PutEvent

text \<open>
  The strategy instance. The attributes \<open>atr_window\<close>, \<open>atr_ma_window\<close>, \<open>rsi_window\<close>,
  \<open>rsi_entry\<close>, \<open>rsi_buy\<close>, \<open>rsi_sell\<close>, \<open>fixed_size\<close>, \<open>lookback_var\<close> and the dicts
  \<open>atr_data\<close>, \<open>atr_ma\<close>, \<open>rsi_data\<close>, \<open>intra_trade_high\<close>, \<open>intra_trade_low\<close> are read by
  the source but declared in neither class; they are taken as fields of the state. The
  window sizes are naturals. \<open>pos_data\<close> and \<open>target_data\<close> are the position and target
  tables of the strategy template behind \<open>get_pos\<close> and \<open>set_target\<close>.
\<close>

record strategy =
  atr_window :: nat
  atr_ma_window :: nat
  rsi_window :: nat
  rsi_entry :: rat
  rsi_buy :: rat
  rsi_sell :: rat
  trailing_percent :: rat
  fixed_size :: int
  lookback_var :: rat
  ams :: "symbol \<rightharpoonup> array_manager"
  atr_data :: "symbol \<rightharpoonup> rat"
  atr_ma :: "symbol \<rightharpoonup> rat"
  rsi_data :: "symbol \<rightharpoonup> rat"
  intra_trade_high :: "symbol \<rightharpoonup> rat"
  intra_trade_low :: "symbol \<rightharpoonup> rat"
  pos_data :: "symbol \<Rightarrow> int"
  target_data :: "symbol \<Rightarrow> int"
  signal_strength :: "(symbol \<times> rat) list"
  unit_weights :: "(symbol \<times> rat) list"
  daily_prices :: "symbol \<rightharpoonup> rat list"
  trace :: "event list"

text \<open>
  How a piece of code ends: it falls through to the next statement (\<open>Next\<close>), it executes
  \<open>return\<close> (\<open>Return\<close>), or an exception propagates (\<open>Raise\<close>). The mutated instance is
  kept in each case.
\<close>

datatype flow = Next strategy | Return strategy | Raise py_error strategy

fun state_of :: "flow \<Rightarrow> strategy" where
  "state_of (Next s) = s"
| "state_of (Return s) = s"
| "state_of (Raise e s) = s"

section \<open>QuadProgStrategy.calculate_unit_weights\<close>

text \<open>
  \<^verbatim>\<open>
  total_strength = sum(self.signal_strength.values())
  self.unit_weights = {}
  for vt_symbol, strength in self.signal_strength.items():
      self.unit_weights[vt_symbol] = strength / total_strength
  return self.unit_weights
  \<close>
  Python's \<open>/\<close> raises \<open>ZeroDivisionError\<close> on a zero divisor. The value returned is the
  field \<open>unit_weights\<close> of the returned state.
\<close>

fun unit_weights_loop :: "rat \<Rightarrow> strategy \<Rightarrow> (symbol \<times> rat) list \<Rightarrow> flow" where
  "unit_weights_loop total_strength s [] = Next s"
| "unit_weights_loop total_strength s ((vt_symbol, strength) # rest) =
     (if total_strength = 0 then Raise ZeroDivisionError s
      else unit_weights_loop total_strength
             (s\<lparr>unit_weights :=
                  AList.update vt_symbol (strength / total_strength) (unit_weights s)\<rparr>)
             rest)"

definition calculate_unit_weights :: "strategy \<Rightarrow> flow" where
  "calculate_unit_weights s =
     (let total_strength = sum_list (map snd (signal_strength s))
      in case unit_weights_loop total_strength (s\<lparr>unit_weights := []\<rparr>) (signal_strength s) of
           Next s' \<Rightarrow> Return s'
         | r \<Rightarrow> r)"

section \<open>Collaborators of on_bars\<close>

text \<open>
  Modelled from the spec: \<open>get_pos\<close>, \<open>set_target\<close>, \<open>rebalance_portfolio\<close> and
  \<open>put_event\<close> are inherited from the strategy template, which is not among the source
  files. \<open>get_pos\<close> reads the authoritative current position; \<open>set_target\<close> stores the
  target of one instrument; \<open>rebalance_portfolio\<close> and \<open>put_event\<close> hand over to the
  execution and event collaborators, of which only the call is recorded.
\<close>

definition get_pos :: "strategy \<Rightarrow> symbol \<Rightarrow> int" where
  "get_pos s vt_symbol = pos_data s vt_symbol"

definition set_target :: "strategy \<Rightarrow> symbol \<Rightarrow> int \<Rightarrow> strategy" where
  "set_target s vt_symbol target =
     s\<lparr>target_data := (target_data s)(vt_symbol := target),
       trace := trace s @ [SetTarget vt_symbol target]\<rparr>"

definition rebalance_portfolio :: "strategy \<Rightarrow> (symbol \<times> bar_data) list \<Rightarrow> strategy" where
  "rebalance_portfolio s bars = s\<lparr>trace := trace s @ [RebalancePortfolio]\<rparr>"

definition put_event :: "strategy \<Rightarrow> strategy" where
  "put_event s = s\<lparr>trace := trace s @ [PutEvent]\<rparr>"

text \<open>
  The slice \<open>a[-n:]\<close> of a sequence for a natural \<open>n\<close>: the last \<open>n\<close> elements, and the
  whole sequence for \<open>n = 0\<close> (since \<open>-0 = 0\<close>) or \<open>n\<close> beyond the length. \<open>mean\<close> is
  the arithmetic mean; it is only applied to non-empty slices.
\<close>

definition tail_slice :: "nat \<Rightarrow> 'a list \<Rightarrow> 'a list" where
  "tail_slice n xs = (if n = 0 then xs else drop (length xs - n) xs)"

definition mean :: "rat list \<Rightarrow> rat" where
  "mean xs = sum_list xs / of_nat (length xs)"

section \<open>QuadProgStrategy.on_bars\<close>

text \<open>
  The branch \<open>current_pos == 0\<close> (lines 121 to 131):
  \<^verbatim>\<open>
  self.intra_trade_high[vt_symbol] = bar.high_price
  self.intra_trade_low[vt_symbol] = bar.low_price
  if self.atr_data[vt_symbol] > self.atr_ma[vt_symbol]:
      if self.rsi_data[vt_symbol] > self.rsi_buy:
          self.set_target(vt_symbol, self.fixed_size)
      elif self.rsi_data[vt_symbol] < self.rsi_sell:
          self.set_target(vt_symbol, -self.fixed_size)
      else:
          self.set_target(vt_symbol, 0)
  \<close>
\<close>

definition qp_flat_branch :: "strategy \<Rightarrow> symbol \<Rightarrow> bar_data \<Rightarrow> flow" where
  "qp_flat_branch s vt_symbol bar =
     (let s2 = s\<lparr>intra_trade_high := (intra_trade_high s)(vt_symbol \<mapsto> high_price bar),
                 intra_trade_low := (intra_trade_low s)(vt_symbol \<mapsto> low_price bar)\<rparr>
      in case atr_data s2 vt_symbol of
           None \<Rightarrow> Raise KeyError s2
         | Some a \<Rightarrow>
            (case atr_ma s2 vt_symbol of
               None \<Rightarrow> Raise KeyError s2
             | Some m \<Rightarrow>
                if a > m then
                  (case rsi_data s2 vt_symbol of
                     None \<Rightarrow> Raise KeyError s2
                   | Some r \<Rightarrow>
                      if r > rsi_buy s2 then Next (set_target s2 vt_symbol (fixed_size s2))
                      else if r < rsi_sell s2 then Next (set_target s2 vt_symbol (- fixed_size s2))
                      else Next (set_target s2 vt_symbol 0))
                else Next s2))"

text \<open>
  The branch \<open>current_pos > 0\<close> (lines 133 to 140):
  \<^verbatim>\<open>
  self.intra_trade_high[vt_symbol] = max(self.intra_trade_high[vt_symbol], bar.high_price)
  self.intra_trade_low[vt_symbol] = bar.low_price
  long_stop = self.intra_trade_high[vt_symbol] * (1 - self.trailing_percent / 100)
  if bar.close_price <= long_stop:
      self.set_target(vt_symbol, 0)
  \<close>
\<close>

definition qp_long_branch :: "strategy \<Rightarrow> symbol \<Rightarrow> bar_data \<Rightarrow> flow" where
  "qp_long_branch s vt_symbol bar =
     (case intra_trade_high s vt_symbol of
        None \<Rightarrow> Raise KeyError s
      | Some h \<Rightarrow>
         (let s2 = s\<lparr>intra_trade_high := (intra_trade_high s)(vt_symbol \<mapsto> max h (high_price bar)),
                     intra_trade_low := (intra_trade_low s)(vt_symbol \<mapsto> low_price bar)\<rparr>
          in case intra_trade_high s2 vt_symbol of
               None \<Rightarrow> Raise KeyError s2
             | Some h2 \<Rightarrow>
                (let long_stop = h2 * (1 - trailing_percent s2 / 100)
                 in if close_price bar \<le> long_stop then Next (set_target s2 vt_symbol 0)
                    else Next s2)))"

text \<open>
  The branch \<open>current_pos < 0\<close> (lines 142 to 149):
  \<^verbatim>\<open>
  self.intra_trade_low[vt_symbol] = min(self.intra_trade_low[vt_symbol], bar.low_price)
  self.intra_trade_high[vt_symbol] = bar.high_price
  short_stop = self.intra_trade_low[vt_symbol] * (1 + self.trailing_percent / 100)
  if bar.close_price >= short_stop:
      self.set_target(vt_symbol, 0)
  \<close>
\<close>

definition qp_short_branch :: "strategy \<Rightarrow> symbol \<Rightarrow> bar_data \<Rightarrow> flow" where
  "qp_short_branch s vt_symbol bar =
     (case intra_trade_low s vt_symbol of
        None \<Rightarrow> Raise KeyError s
      | Some l \<Rightarrow>
         (let s2 = s\<lparr>intra_trade_low := (intra_trade_low s)(vt_symbol \<mapsto> min l (low_price bar)),
                     intra_trade_high := (intra_trade_high s)(vt_symbol \<mapsto> high_price bar)\<rparr>
          in case intra_trade_low s2 vt_symbol of
               None \<Rightarrow> Raise KeyError s2
             | Some l2 \<Rightarrow>
                (let short_stop = l2 * (1 + trailing_percent s2 / 100)
                 in if close_price bar \<ge> short_stop then Next (set_target s2 vt_symbol 0)
                    else Next s2)))"

text \<open>
  One pass of the body of the second loop (lines 111 to 149), for one item of \<open>bars\<close>.
  \<open>atr_array[-1]\<close> raises \<open>IndexError\<close> on an empty array.
\<close>

definition qp_on_bars_symbol :: "strategy \<Rightarrow> symbol \<Rightarrow> bar_data \<Rightarrow> flow" where
  "qp_on_bars_symbol s vt_symbol bar =
     (case ams s vt_symbol of
        None \<Rightarrow> Raise KeyError s
      | Some am \<Rightarrow>
         if \<not> inited am then Return s
         else
           (let atr_array = atr am (atr_window s)
            in if atr_array = [] then Raise IndexError s
               else
                 (let s1 = s\<lparr>atr_data := (atr_data s)(vt_symbol \<mapsto> last atr_array),
                             atr_ma := (atr_ma s)(vt_symbol \<mapsto>
                                          mean (tail_slice (atr_ma_window s) atr_array)),
                             rsi_data := (rsi_data s)(vt_symbol \<mapsto> rsi am (rsi_window s))\<rparr>;
                      current_pos = get_pos s1 vt_symbol
                  in if current_pos = 0 then qp_flat_branch s1 vt_symbol bar
                     else if current_pos > 0 then qp_long_branch s1 vt_symbol bar
                     else if current_pos < 0 then qp_short_branch s1 vt_symbol bar
                     else Next s1)))"

text \<open>The first loop (lines 106 to 108): every indicator state takes its bar.\<close>

fun qp_update_loop ::
  "(array_manager \<Rightarrow> bar_data \<Rightarrow> array_manager) \<Rightarrow> strategy \<Rightarrow> (symbol \<times> bar_data) list \<Rightarrow> flow"
where
  "qp_update_loop update_bar s [] = Next s"
| "qp_update_loop update_bar s ((vt_symbol, bar) # rest) =
     (case ams s vt_symbol of
        None \<Rightarrow> Raise KeyError s
      | Some am \<Rightarrow>
         qp_update_loop update_bar (s\<lparr>ams := (ams s)(vt_symbol \<mapsto> update_bar am bar)\<rparr>) rest)"

text \<open>The second loop (lines 110 to 149).\<close>

fun qp_signal_loop :: "strategy \<Rightarrow> (symbol \<times> bar_data) list \<Rightarrow> flow" where
  "qp_signal_loop s [] = Next s"
| "qp_signal_loop s ((vt_symbol, bar) # rest) =
     (case qp_on_bars_symbol s vt_symbol bar of
        Next s' \<Rightarrow> qp_signal_loop s' rest
      | r \<Rightarrow> r)"

text \<open>\<open>on_bars\<close>: both loops, then \<open>rebalance_portfolio(bars)\<close> and \<open>put_event()\<close>.\<close>

definition qp_on_bars ::
  "(array_manager \<Rightarrow> bar_data \<Rightarrow> array_manager) \<Rightarrow> strategy \<Rightarrow> (symbol \<times> bar_data) list \<Rightarrow> flow"
where
  "qp_on_bars update_bar s bars =
     (case qp_update_loop update_bar s bars of
        Next s1 \<Rightarrow>
          (case qp_signal_loop s1 bars of
             Next s2 \<Rightarrow> Return (put_event (rebalance_portfolio s2 bars))
           | r \<Rightarrow> r)
      | r \<Rightarrow> r)"

text \<open>
  \<open>QuadProgStrategy.on_init\<close> loads history and writes a log line; it assigns no attribute.
\<close>

definition qp_on_init :: "strategy \<Rightarrow> strategy" where
  "qp_on_init s = s"

section \<open>MeanReversionStrategy.on_bars\<close>

text \<open>
  The branch \<open>current_pos == 0\<close> (lines 113 to 123):
  \<^verbatim>\<open>
  self.intra_trade_high[vt_symbol] = bar.high_price
  self.intra_trade_low[vt_symbol] = bar.low_price
  if self.atr_data[vt_symbol] > self.atr_ma[vt_symbol]:
      if self.rsi_data[vt_symbol] > self.rsi_buy:
          self.set_target(vt_symbol, self.fixed_size)
      elif self.rsi_data[vt_symbol] < self.rsi_sell:
          self.set_target(vt_symbol, -self.fixed_size)
      else:
          self.set_target(vt_symbol, 0)
  \<close>
\<close>

definition mr_flat_branch :: "strategy \<Rightarrow> symbol \<Rightarrow> bar_data \<Rightarrow> flow" where
  "mr_flat_branch s vt_symbol bar =
     (let s2 = s\<lparr>intra_trade_high := (intra_trade_high s)(vt_symbol \<mapsto> high_price bar),
                 intra_trade_low := (intra_trade_low s)(vt_symbol \<mapsto> low_price bar)\<rparr>
      in case atr_data s2 vt_symbol of
           None \<Rightarrow> Raise KeyError s2
         | Some a \<Rightarrow>
            (case atr_ma s2 vt_symbol of
               None \<Rightarrow> Raise KeyError s2
             | Some m \<Rightarrow>
                if a > m then
                  (case rsi_data s2 vt_symbol of
                     None \<Rightarrow> Raise KeyError s2
                   | Some r \<Rightarrow>
                      if r > rsi_buy s2 then Next (set_target s2 vt_symbol (fixed_size s2))
                      else if r < rsi_sell s2 then Next (set_target s2 vt_symbol (- fixed_size s2))
                      else Next (set_target s2 vt_symbol 0))
                else Next s2))"

text \<open>
  The branch \<open>current_pos > 0\<close> (lines 125 to 132):
  \<^verbatim>\<open>
  self.intra_trade_high[vt_symbol] = max(self.intra_trade_high[vt_symbol], bar.high_price)
  self.intra_trade_low[vt_symbol] = bar.low_price
  long_stop = self.intra_trade_high[vt_symbol] * (1 - self.trailing_percent / 100)
  if bar.close_price <= long_stop:
      self.set_target(vt_symbol, 0)
  \<close>
\<close>

definition mr_long_branch :: "strategy \<Rightarrow> symbol \<Rightarrow> bar_data \<Rightarrow> flow" where
  "mr_long_branch s vt_symbol bar =
     (case intra_trade_high s vt_symbol of
        None \<Rightarrow> Raise KeyError s
      | Some h \<Rightarrow>
         (let s2 = s\<lparr>intra_trade_high := (intra_trade_high s)(vt_symbol \<mapsto> max h (high_price bar)),
                     intra_trade_low := (intra_trade_low s)(vt_symbol \<mapsto> low_price bar)\<rparr>
          in case intra_trade_high s2 vt_symbol of
               None \<Rightarrow> Raise KeyError s2
             | Some h2 \<Rightarrow>
                (let long_stop = h2 * (1 - trailing_percent s2 / 100)
                 in if close_price bar \<le> long_stop then Next (set_target s2 vt_symbol 0)
                    else Next s2)))"

text \<open>
  The branch \<open>current_pos < 0\<close> (lines 134 to 141):
  \<^verbatim>\<open>
  self.intra_trade_low[vt_symbol] = min(self.intra_trade_low[vt_symbol], bar.low_price)
  self.intra_trade_high[vt_symbol] = bar.high_price
  short_stop = self.intra_trade_low[vt_symbol] * (1 + self.trailing_percent / 100)
  if bar.close_price >= short_stop:
      self.set_target(vt_symbol, 0)
  \<close>
\<close>

definition mr_short_branch :: "strategy \<Rightarrow> symbol \<Rightarrow> bar_data \<Rightarrow> flow" where
  "mr_short_branch s vt_symbol bar =
     (case intra_trade_low s vt_symbol of
        None \<Rightarrow> Raise KeyError s
      | Some l \<Rightarrow>
         (let s2 = s\<lparr>intra_trade_low := (intra_trade_low s)(vt_symbol \<mapsto> min l (low_price bar)),
                     intra_trade_high := (intra_trade_high s)(vt_symbol \<mapsto> high_price bar)\<rparr>
          in case intra_trade_low s2 vt_symbol of
               None \<Rightarrow> Raise KeyError s2
             | Some l2 \<Rightarrow>
                (let short_stop = l2 * (1 + trailing_percent s2 / 100)
                 in if close_price bar \<ge> short_stop then Next (set_target s2 vt_symbol 0)
                    else Next s2)))"

text \<open>
  One pass of the body of the second loop (lines 103 to 141), for one item of \<open>bars\<close>.
  \<open>atr_array[-1]\<close> raises \<open>IndexError\<close> on an empty array.
\<close>

definition mr_on_bars_symbol :: "strategy \<Rightarrow> symbol \<Rightarrow> bar_data \<Rightarrow> flow" where
  "mr_on_bars_symbol s vt_symbol bar =
     (case ams s vt_symbol of
        None \<Rightarrow> Raise KeyError s
      | Some am \<Rightarrow>
         if \<not> inited am then Return s
         else
           (let atr_array = atr am (atr_window s)
            in if atr_array = [] then Raise IndexError s
               else
                 (let s1 = s\<lparr>atr_data := (atr_data s)(vt_symbol \<mapsto> last atr_array),
                             atr_ma := (atr_ma s)(vt_symbol \<mapsto>
                                          mean (tail_slice (atr_ma_window s) atr_array)),
                             rsi_data := (rsi_data s)(vt_symbol \<mapsto> rsi am (rsi_window s))\<rparr>;
                      current_pos = get_pos s1 vt_symbol
                  in if current_pos = 0 then mr_flat_branch s1 vt_symbol bar
                     else if current_pos > 0 then mr_long_branch s1 vt_symbol bar
                     else if current_pos < 0 then mr_short_branch s1 vt_symbol bar
                     else Next s1)))"

text \<open>The first loop (lines 98 to 100): every indicator state takes its bar.\<close>

fun mr_update_loop ::
  "(array_manager \<Rightarrow> bar_data \<Rightarrow> array_manager) \<Rightarrow> strategy \<Rightarrow> (symbol \<times> bar_data) list \<Rightarrow> flow"
where
  "mr_update_loop update_bar s [] = Next s"
| "mr_update_loop update_bar s ((vt_symbol, bar) # rest) =
     (case ams s vt_symbol of
        None \<Rightarrow> Raise KeyError s
      | Some am \<Rightarrow>
         mr_update_loop update_bar (s\<lparr>ams := (ams s)(vt_symbol \<mapsto> update_bar am bar)\<rparr>) rest)"

text \<open>The second loop (lines 102 to 141).\<close>

fun mr_signal_loop :: "strategy \<Rightarrow> (symbol \<times> bar_data) list \<Rightarrow> flow" where
  "mr_signal_loop s [] = Next s"
| "mr_signal_loop s ((vt_symbol, bar) # rest) =
     (case mr_on_bars_symbol s vt_symbol bar of
        Next s' \<Rightarrow> mr_signal_loop s' rest
      | r \<Rightarrow> r)"

text \<open>\<open>on_bars\<close>: both loops, then \<open>rebalance_portfolio(bars)\<close> and \<open>put_event()\<close>.\<close>

definition mr_on_bars ::
  "(array_manager \<Rightarrow> bar_data \<Rightarrow> array_manager) \<Rightarrow> strategy \<Rightarrow> (symbol \<times> bar_data) list \<Rightarrow> flow"
where
  "mr_on_bars update_bar s bars =
     (case mr_update_loop update_bar s bars of
        Next s1 \<Rightarrow>
          (case mr_signal_loop s1 bars of
             Next s2 \<Rightarrow> Return (put_event (rebalance_portfolio s2 bars))
           | r \<Rightarrow> r)
      | r \<Rightarrow> r)"

text \<open>
  \<open>MeanReversionStrategy.on_init\<close> derives the two entry thresholds from the entry offset
  before it loads history:
  \<^verbatim>\<open>
  self.rsi_buy = 50 + self.rsi_entry
  self.rsi_sell = 50 - self.rsi_entry
  \<close>
\<close>

definition mr_on_init :: "strategy \<Rightarrow> strategy" where
  "mr_on_init s = s\<lparr>rsi_buy := 50 + rsi_entry s, rsi_sell := 50 - rsi_entry s\<rparr>"

section \<open>calculate_unit_var\<close>

text \<open>
  \<open>MeanReversionStrategy.calculate_unit_var\<close> walks over \<open>signal_strength\<close> with an empty
  body and ends without a \<open>return\<close> statement: the call evaluates to Python's \<open>None\<close>.
\<close>

definition mr_calculate_unit_var :: "strategy \<Rightarrow> real option" where
  "mr_calculate_unit_var s = fold (\<lambda>(vt_symbol, target) r. r) (signal_strength s) None"

text \<open>
  The \<open>pandas\<close> operations that \<open>QuadProgStrategy.calculate_unit_var\<close> calls. A series is
  the list of its values on the positional index \<open>0, 1, ...\<close>.

  \<open>pd.concat(series, axis=1).sum(axis=1)\<close> puts the series side by side, aligned on the
  index, and adds each row, skipping the cells a shorter series does not have.
\<close>

fun add_series :: "rat list \<Rightarrow> rat list \<Rightarrow> rat list" where
  "add_series [] ys = ys"
| "add_series (x # xs) [] = x # xs"
| "add_series (x # xs) (y # ys) = (x + y) # add_series xs ys"

fun concat_sum :: "rat list list \<Rightarrow> rat list" where
  "concat_sum [] = []"
| "concat_sum (c # cs) = add_series c (concat_sum cs)"

text \<open>
  The last point of \<open>series.ewm(span=span).std()\<close>, with the defaults \<open>adjust=True\<close> and
  \<open>bias=False\<close>: observation \<open>i\<close> of \<open>n\<close> has weight \<open>(1 - alpha) ^ (n - 1 - i)\<close> with
  \<open>alpha = 2 / (span + 1)\<close>; the weighted variance around the weighted mean is multiplied by
  \<open>(sum w)^2 / ((sum w)^2 - sum w^2)\<close>, and the point is NaN, here \<open>None\<close>, when that
  denominator is not positive (a single observation, or \<open>span = 1\<close>). The standard
  deviation is the square root.
\<close>

definition ewm_weights :: "rat \<Rightarrow> nat \<Rightarrow> rat list" where
  "ewm_weights sp n = map (\<lambda>i. (1 - 2 / (sp + 1)) ^ (n - 1 - i)) [0..<n]"

definition ewm_var_last :: "rat \<Rightarrow> rat list \<Rightarrow> rat option" where
  "ewm_var_last sp xs =
     (let ws = ewm_weights sp (length xs);
          sum_wt = sum_list ws;
          sum_wt2 = sum_list (map (\<lambda>w. w * w) ws);
          mean_x = sum_list (map (\<lambda>(w, x). w * x) (zip ws xs)) / sum_wt;
          cov = sum_list (map (\<lambda>(w, x). w * (x - mean_x) * (x - mean_x)) (zip ws xs)) / sum_wt;
          numerator = sum_wt * sum_wt;
          denominator = numerator - sum_wt2
      in if denominator > 0 then Some (numerator / denominator * cov) else None)"

definition ewm_std_last :: "rat \<Rightarrow> rat list \<Rightarrow> real option" where
  "ewm_std_last sp xs = map_option (\<lambda>v. sqrt (of_rat v)) (ewm_var_last sp xs)"

text \<open>
  \<open>QuadProgStrategy.calculate_unit_var\<close> (lines 82 to 89):
  \<^verbatim>\<open>
  portfolio_return_list = []
  for vt_symbol, strength in self.signal_strength.items():
      portfolio_return_list.append(self.daily_prices[vt_symbol] * self.unit_weights[vt_symbol])
  portfolio_return = pd.concat(portfolio_return_list, axis=1).sum(axis=1)
  unit_var = portfolio_return.ewm(span=self.lookback_var).std().iloc[-1]
  return unit_var
  \<close>
  \<open>pd.concat\<close> raises \<open>ValueError\<close> on an empty list, \<open>ewm\<close> raises \<open>ValueError\<close> for a
  span below \<open>1\<close>, and \<open>.iloc[-1]\<close> raises \<open>IndexError\<close> on an empty series.
\<close>

fun portfolio_return_list ::
  "strategy \<Rightarrow> (symbol \<times> rat) list \<Rightarrow> rat list list \<Rightarrow> py_error + rat list list"
where
  "portfolio_return_list s [] acc = Inr acc"
| "portfolio_return_list s ((vt_symbol, strength) # rest) acc =
     (case daily_prices s vt_symbol of
        None \<Rightarrow> Inl KeyError
      | Some prices \<Rightarrow>
         (case map_of (unit_weights s) vt_symbol of
            None \<Rightarrow> Inl KeyError
          | Some w \<Rightarrow> portfolio_return_list s rest (acc @ [map (\<lambda>x. x * w) prices])))"

definition qp_calculate_unit_var :: "strategy \<Rightarrow> py_error + real option" where
  "qp_calculate_unit_var s =
     (case portfolio_return_list s (signal_strength s) [] of
        Inl e \<Rightarrow> Inl e
      | Inr lst \<Rightarrow>
         if lst = [] then Inl ValueError
         else
           (let portfolio_return = concat_sum lst
            in if lookback_var s < 1 then Inl ValueError
               else if portfolio_return = [] then Inl IndexError
               else Inr (ewm_std_last (lookback_var s) portfolio_return)))"

text \<open>
  The portfolio series in the words of the specification (section 4.2, step 2): per
  historical period \<open>t\<close>, the sum over the instruments of the instrument's series at \<open>t\<close>
  scaled by its unit weight, for \<open>n\<close> periods.
\<close>

definition weighted_sum_series :: "strategy \<Rightarrow> nat \<Rightarrow> rat list" where
  "weighted_sum_series s n =
     map (\<lambda>t. sum_list
                 (map (\<lambda>(k, v). the (daily_prices s k) ! t * the (map_of (unit_weights s) k))
                    (signal_strength s)))
       [0..<n]"

section \<open>Concrete states\<close>

text \<open>
  A strategy over two instruments with the parameters \<open>atr_window = 22\<close>,
  \<open>atr_ma_window = 10\<close>, \<open>rsi_window = 5\<close>, \<open>rsi_entry = 16\<close>,
  \<open>trailing_percent = 0.8\<close>, \<open>fixed_size = 1\<close>, before \<open>on_init\<close>.
\<close>

definition example_strategy :: strategy where
  "example_strategy =
     \<lparr>atr_window = 22, atr_ma_window = 10, rsi_window = 5, rsi_entry = 16,
      rsi_buy = 0, rsi_sell = 0, trailing_percent = 4 / 5, fixed_size = 1,
      lookback_var = 30,
      ams = Map.empty, atr_data = Map.empty, atr_ma = Map.empty, rsi_data = Map.empty,
      intra_trade_high = Map.empty, intra_trade_low = Map.empty,
      pos_data = (\<lambda>_. 0), target_data = (\<lambda>_. 0),
      signal_strength = [], unit_weights = [], daily_prices = Map.empty, trace = []\<rparr>"

text \<open>An initialised indicator state with the given ATR array and RSI value.\<close>

definition warm_am :: "rat list \<Rightarrow> rat \<Rightarrow> array_manager" where
  "warm_am arr r = \<lparr>inited = True, atr = (\<lambda>_. arr), rsi = (\<lambda>_. r)\<rparr>"

definition cold_am :: array_manager where
  "cold_am = \<lparr>inited = False, atr = (\<lambda>_. []), rsi = (\<lambda>_. 0)\<rparr>"

definition example_bar :: bar_data where
  "example_bar = \<lparr>high_price = 105, low_price = 100, close_price = 109\<rparr>"

text \<open>Signal strengths \<open>{A: 1, B: 3}\<close>, and the zero-sum strengths \<open>{A: 1, B: -1}\<close>.\<close>

definition weighted_strategy :: strategy where
  "weighted_strategy = example_strategy\<lparr>signal_strength := [(''A'', 1), (''B'', 3)]\<rparr>"

definition degenerate_strategy :: strategy where
  "degenerate_strategy = example_strategy\<lparr>signal_strength := [(''A'', 1), (''B'', - 1)]\<rparr>"

text \<open>The number of \<open>set_target\<close> calls recorded for one instrument.\<close>

fun target_calls :: "symbol \<Rightarrow> event list \<Rightarrow> nat" where
  "target_calls k [] = 0"
| "target_calls k (SetTarget j v # es) = (if j = k then 1 else 0) + target_calls k es"
| "target_calls k (RebalancePortfolio # es) = target_calls k es"
| "target_calls k (PutEvent # es) = target_calls k es"

text \<open>An \<open>update_bar\<close> that leaves the readings of an indicator state as they are.\<close>

definition same_readings :: "array_manager \<Rightarrow> bar_data \<Rightarrow> array_manager" where
  "same_readings am bar = am"

text \<open>
  Two instruments after \<open>MeanReversionStrategy.on_init\<close>: \<open>A\<close> is warmed up, with ATR
  \<open>2\<close> above its moving average \<open>1.5\<close> and RSI \<open>70\<close>; \<open>B\<close> is not warmed up.
\<close>

definition half_warm_strategy :: strategy where
  "half_warm_strategy =
     (mr_on_init example_strategy)
       \<lparr>ams := [''A'' \<mapsto> warm_am [1, 2] 70, ''B'' \<mapsto> cold_am]\<rparr>"

definition two_bars :: "(symbol \<times> bar_data) list" where
  "two_bars = [(''A'', example_bar), (''B'', example_bar)]"

text \<open>
  Instrument \<open>A\<close> is flat with target \<open>0\<close>, its ATR \<open>1\<close> is below the moving average
  \<open>1.5\<close>, and its RSI \<open>70\<close> is above the buy threshold \<open>66\<close>.
\<close>

definition calm_strategy :: strategy where
  "calm_strategy =
     (mr_on_init example_strategy)\<lparr>ams := [''A'' \<mapsto> warm_am [2, 1] 70]\<rparr>"

definition one_bar :: "(symbol \<times> bar_data) list" where
  "one_bar = [(''A'', example_bar)]"

text \<open>
  The stop scenario: \<open>A\<close> is long with \<open>intra_trade_high = 110\<close>, \<open>B\<close> is short with
  \<open>intra_trade_low = 100\<close>, \<open>trailing_percent = 0.8\<close>; \<open>example_bar\<close> closes at \<open>109\<close>.
  \<open>hold_bar\<close> closes at \<open>109.5\<close>, above the long stop \<open>109.12\<close>.
\<close>

definition open_strategy :: strategy where
  "open_strategy =
     (mr_on_init example_strategy)
       \<lparr>ams := [''A'' \<mapsto> warm_am [1, 2] 70, ''B'' \<mapsto> warm_am [1, 2] 70],
        intra_trade_high := [''A'' \<mapsto> 110],
        intra_trade_low := [''B'' \<mapsto> 100],
        pos_data := (\<lambda>_. 0)(''A'' := 1, ''B'' := - 1),
        target_data := (\<lambda>_. 0)(''A'' := 1, ''B'' := - 1)\<rparr>"

definition hold_bar :: bar_data where
  "hold_bar = \<lparr>high_price = 110, low_price = 109, close_price = 219 / 2\<rparr>"

definition one_hold_bar :: "(symbol \<times> bar_data) list" where
  "one_hold_bar = [(''A'', hold_bar)]"

text \<open>
  A state for \<open>calculate_unit_var\<close>: two instruments with weights \<open>1/4\<close> and \<open>3/4\<close>, two
  prices each, span \<open>30\<close>. The weighted series are \<open>[1, 2]\<close> and \<open>[3, 9]\<close>, their sum is
  \<open>[4, 11]\<close>.
\<close>

definition var_strategy :: strategy where
  "var_strategy =
     weighted_strategy
       \<lparr>unit_weights := [(''A'', 1 / 4), (''B'', 3 / 4)],
        daily_prices := [''A'' \<mapsto> [4, 8], ''B'' \<mapsto> [4, 12]]\<rparr>"

text \<open>A slice in which the instrument that is not warmed up comes first.\<close>

definition cold_first_bars :: "(symbol \<times> bar_data) list" where
  "cold_first_bars = [(''B'', example_bar), (''A'', example_bar)]"

text \<open>
  The entry scenario before \<open>on_init\<close>: entry offset \<open>10\<close>; both instruments are flat with
  ATR \<open>1.2\<close> above the moving average \<open>1.0\<close>; \<open>A\<close> has RSI \<open>65\<close>, \<open>B\<close> has RSI \<open>30\<close>.
\<close>

definition scenario_config :: strategy where
  "scenario_config =
     example_strategy
       \<lparr>rsi_entry := 10,
        ams := [''A'' \<mapsto> warm_am [4 / 5, 6 / 5] 65, ''B'' \<mapsto> warm_am [4 / 5, 6 / 5] 30]\<rparr>"

text \<open>A later bar with a higher high and a lower low than \<open>example_bar\<close>.\<close>

definition wide_bar :: bar_data where
  "wide_bar = \<lparr>high_price = 112, low_price = 98, close_price = 111\<rparr>"

definition two_wide_bars :: "(symbol \<times> bar_data) list" where
  "two_wide_bars = [(''A'', wide_bar), (''B'', wide_bar)]"

text \<open>
  One configuration for both variants, before \<open>on_init\<close>: thresholds not yet derived
  (\<open>rsi_buy = rsi_sell = 0\<close>), entry offset \<open>16\<close>; \<open>A\<close> is flat with its ATR above the
  moving average and RSI \<open>50\<close>.
\<close>

definition shared_config :: strategy where
  "shared_config = example_strategy\<lparr>ams := [''A'' \<mapsto> warm_am [1, 2] 50]\<rparr>"

text \<open>The values of the \<open>set_target\<close> calls recorded for one instrument, in order.\<close>

fun target_values :: "symbol \<Rightarrow> event list \<Rightarrow> int list" where
  "target_values k [] = []"
| "target_values k (SetTarget j v # es) = (if j = k then [v] else []) @ target_values k es"
| "target_values k (RebalancePortfolio # es) = target_values k es"
| "target_values k (PutEvent # es) = target_values k es"

text \<open>
  What a state holds for one instrument: its target, the values of its \<open>set_target\<close>
  calls, and its two intra-trade extremes.
\<close>

definition instrument_view ::
  "symbol \<Rightarrow> strategy \<Rightarrow> int \<times> int list \<times> rat option \<times> rat option"
where
  "instrument_view k s =
     (target_data s k, target_values k (trace s), intra_trade_high s k, intra_trade_low s k)"

text \<open>The stop scenario after its first slice, \<open>two_bars\<close>, has been processed.\<close>

definition after_first_slice :: strategy where
  "after_first_slice = state_of (qp_on_bars same_readings open_strategy two_bars)"

section \<open>Unit weights\<close>

lemma update_fresh: "k \<notin> fst ` set al \<Longrightarrow> AList.update k v al = al @ [(k, v)]"
  by (induction al) auto

lemma unit_weights_loop_distinct:
  "t \<noteq> 0 \<Longrightarrow> distinct (map fst (unit_weights s) @ map fst ss) \<Longrightarrow>
   unit_weights_loop t s ss =
     Next (s\<lparr>unit_weights := unit_weights s @ map (\<lambda>(k, v). (k, v / t)) ss\<rparr>)"
proof (induction ss arbitrary: s)
  case Nil
  then show ?case by simp
next
  case (Cons p ss)
  obtain k v where p: "p = (k, v)" by (cases p)
  from Cons.prems have fresh: "k \<notin> fst ` set (unit_weights s)"
    by (auto simp: p)
  let ?s = "s\<lparr>unit_weights := AList.update k (v / t) (unit_weights s)\<rparr>"
  have d: "distinct (map fst (unit_weights ?s) @ map fst ss)"
    using Cons.prems fresh by (auto simp: p update_fresh)
  show ?case
    using Cons.IH [OF Cons.prems(1) d] Cons.prems(1) fresh
    by (simp add: p update_fresh)
qed

lemma sum_list_scaled:
  "sum_list (map snd (map (\<lambda>(k, v). (k, v / t)) ss)) = sum_list (map snd ss) / (t::rat)"
  by (induction ss) (auto simp: add_divide_distrib)

lemma map_of_scaled:
  "map_of (map (\<lambda>(k, v). (k, v / t)) ss) k = map_option (\<lambda>v. v / (t::rat)) (map_of ss k)"
  by (induction ss) auto

text \<open>
  Claim C8. Whenever the signal strengths (a dict, so with distinct keys) have a nonzero
  sum, \<open>calculate_unit_weights\<close> returns, the weight of every instrument is its strength
  divided by the sum of all strengths, no other key has a weight, and the weights sum to
  exactly 1 in rational arithmetic.
\<close>

theorem unit_weights_normalised:
  assumes "distinct (map fst (signal_strength s))"
    and "sum_list (map snd (signal_strength s)) \<noteq> 0"
  shows "calculate_unit_weights s =
           Return (s\<lparr>unit_weights :=
                       map (\<lambda>(k, v). (k, v / sum_list (map snd (signal_strength s))))
                         (signal_strength s)\<rparr>)
         \<and> (\<forall>k. map_of (unit_weights (state_of (calculate_unit_weights s))) k =
                map_option (\<lambda>v. v / sum_list (map snd (signal_strength s)))
                  (map_of (signal_strength s) k))
         \<and> sum_list (map snd (unit_weights (state_of (calculate_unit_weights s)))) = 1"
proof -
  let ?t = "sum_list (map snd (signal_strength s))"
  have "distinct (map fst (unit_weights (s\<lparr>unit_weights := []\<rparr>)) @ map fst (signal_strength s))"
    using assms(1) by simp
  from unit_weights_loop_distinct [OF assms(2) this]
  have r: "calculate_unit_weights s =
           Return (s\<lparr>unit_weights := map (\<lambda>(k, v). (k, v / ?t)) (signal_strength s)\<rparr>)"
    by (simp add: calculate_unit_weights_def)
  have m: "\<forall>k. map_of (unit_weights (state_of (calculate_unit_weights s))) k =
           map_option (\<lambda>v. v / ?t) (map_of (signal_strength s) k)"
    by (simp add: r map_of_scaled)
  have u: "sum_list (map snd (unit_weights (state_of (calculate_unit_weights s)))) = 1"
    using assms(2) sum_list_scaled [of ?t "signal_strength s"] by (simp add: r)
  from r m u show ?thesis by blast
qed

theorem unit_weights_normalised_witness:
  "distinct (map fst (signal_strength weighted_strategy))
   \<and> sum_list (map snd (signal_strength weighted_strategy)) \<noteq> 0
   \<and> unit_weights (state_of (calculate_unit_weights weighted_strategy)) =
       [(''A'', 1 / 4), (''B'', 3 / 4)]
   \<and> sum_list (map snd (unit_weights (state_of (calculate_unit_weights weighted_strategy)))) = 1"
proof -
  have d: "distinct (map fst (signal_strength weighted_strategy))"
    by (simp add: weighted_strategy_def example_strategy_def)
  have n: "sum_list (map snd (signal_strength weighted_strategy)) \<noteq> 0"
    by (simp add: weighted_strategy_def example_strategy_def)
  have w: "unit_weights (state_of (calculate_unit_weights weighted_strategy)) =
             [(''A'', 1 / 4), (''B'', 3 / 4)]"
    by (simp add: calculate_unit_weights_def weighted_strategy_def example_strategy_def)
  from unit_weights_normalised [OF d n] d n w show ?thesis by blast
qed

text \<open>
  Claim C2. With the zero-sum strengths \<open>{A: 1, B: -1}\<close> the function performs the
  division \<open>1 / 0\<close> at the first instrument: \<open>ZeroDivisionError\<close> propagates to the caller,
  after \<open>unit_weights\<close> has been emptied. There is no early return.
\<close>

theorem unit_weights_zero_sum_raises:
  "sum_list (map snd (signal_strength degenerate_strategy)) = 0
   \<and> calculate_unit_weights degenerate_strategy =
       Raise ZeroDivisionError (degenerate_strategy\<lparr>unit_weights := []\<rparr>)"
  by (simp add: calculate_unit_weights_def degenerate_strategy_def example_strategy_def)

section \<open>The two transcriptions of on_bars agree\<close>

lemma mr_flat_branch_eq: "mr_flat_branch = qp_flat_branch"
  by (simp add: fun_eq_iff mr_flat_branch_def qp_flat_branch_def)

lemma mr_long_branch_eq: "mr_long_branch = qp_long_branch"
  by (simp add: fun_eq_iff mr_long_branch_def qp_long_branch_def)

lemma mr_short_branch_eq: "mr_short_branch = qp_short_branch"
  by (simp add: fun_eq_iff mr_short_branch_def qp_short_branch_def)

lemma mr_on_bars_symbol_eq: "mr_on_bars_symbol = qp_on_bars_symbol"
  unfolding fun_eq_iff mr_on_bars_symbol_def qp_on_bars_symbol_def mr_flat_branch_eq
    mr_long_branch_eq mr_short_branch_eq by simp

lemma mr_update_loop_eq: "mr_update_loop u s bars = qp_update_loop u s bars"
  by (induction u s bars rule: qp_update_loop.induct) (simp_all split: option.splits)

lemma mr_signal_loop_eq: "mr_signal_loop s bars = qp_signal_loop s bars"
  by (induction s bars rule: qp_signal_loop.induct)
    (simp_all add: mr_on_bars_symbol_eq split: flow.splits)

lemma mr_on_bars_eq: "mr_on_bars = qp_on_bars"
proof -
  have u: "mr_update_loop = qp_update_loop"
    by (simp add: fun_eq_iff mr_update_loop_eq)
  have l: "mr_signal_loop = qp_signal_loop"
    by (simp add: fun_eq_iff mr_signal_loop_eq)
  show ?thesis
    unfolding fun_eq_iff mr_on_bars_def qp_on_bars_def u l by simp
qed

section \<open>What one pass of the loop body touches\<close>

lemmas qp_step_defs = qp_on_bars_symbol_def qp_flat_branch_def qp_long_branch_def
  qp_short_branch_def Let_def get_pos_def set_target_def

lemmas concrete_defs = example_strategy_def mr_on_init_def warm_am_def cold_am_def
  example_bar_def same_readings_def mean_def tail_slice_def

lemma target_calls_append: "target_calls k (xs @ ys) = target_calls k xs + target_calls k ys"
  by (induction k xs rule: target_calls.induct) simp_all

lemma qp_symbol_frame:
  "ams (state_of (qp_on_bars_symbol s j b)) = ams s"
  "pos_data (state_of (qp_on_bars_symbol s j b)) = pos_data s"
  "atr_window (state_of (qp_on_bars_symbol s j b)) = atr_window s"
  "atr_ma_window (state_of (qp_on_bars_symbol s j b)) = atr_ma_window s"
  "trailing_percent (state_of (qp_on_bars_symbol s j b)) = trailing_percent s"
  by (simp_all add: qp_step_defs split: option.splits)

lemma qp_symbol_extremes_other:
  "j \<noteq> k \<Longrightarrow> intra_trade_high (state_of (qp_on_bars_symbol s j b)) k = intra_trade_high s k"
  "j \<noteq> k \<Longrightarrow> intra_trade_low (state_of (qp_on_bars_symbol s j b)) k = intra_trade_low s k"
  by (simp_all add: qp_step_defs split: option.splits)

lemma qp_symbol_calls:
  "\<exists>evs. trace (state_of (qp_on_bars_symbol s j b)) = trace s @ evs \<and>
     (evs = [] \<and> target_data (state_of (qp_on_bars_symbol s j b)) = target_data s
      \<or> (\<exists>v. evs = [SetTarget j v] \<and>
            target_data (state_of (qp_on_bars_symbol s j b)) = (target_data s)(j := v)))"
  by (simp add: qp_step_defs split: option.splits)

lemma qp_symbol_other:
  assumes "j \<noteq> k"
  shows "target_data (state_of (qp_on_bars_symbol s j b)) k = target_data s k"
    and "target_calls k (trace (state_of (qp_on_bars_symbol s j b))) = target_calls k (trace s)"
  using qp_symbol_calls [of s j b] assms by (auto simp: target_calls_append)

lemma qp_symbol_calls_le:
  "target_calls k (trace (state_of (qp_on_bars_symbol s j b))) \<le> target_calls k (trace s) + 1"
  using qp_symbol_calls [of s j b] by (auto simp: target_calls_append)

lemma qp_symbol_no_rebalance:
  "count_list (trace (state_of (qp_on_bars_symbol s j b))) RebalancePortfolio =
   count_list (trace s) RebalancePortfolio"
  using qp_symbol_calls [of s j b] by auto

lemma qp_symbol_gate_closed:
  assumes "ams s k = Some am" and "pos_data s k = 0"
    and "last (atr am (atr_window s)) \<le>
           mean (tail_slice (atr_ma_window s) (atr am (atr_window s)))"
  shows "target_data (state_of (qp_on_bars_symbol s j b)) k = target_data s k
         \<and> target_calls k (trace (state_of (qp_on_bars_symbol s j b))) = target_calls k (trace s)"
proof (cases "j = k")
  case True
  with assms show ?thesis by (simp add: qp_step_defs)
next
  case False
  with qp_symbol_other [of j k s b] show ?thesis by simp
qed

lemma qp_symbol_long_hold:
  assumes "0 < pos_data s k" and "intra_trade_high s k = Some h"
    and "\<not> close_price bar \<le> max h (high_price bar) * (1 - trailing_percent s / 100)"
  shows "target_data (state_of (qp_on_bars_symbol s k bar)) = target_data s
         \<and> trace (state_of (qp_on_bars_symbol s k bar)) = trace s"
  using assms by (simp add: qp_step_defs split: option.splits)

lemma qp_symbol_short_hold:
  assumes "pos_data s k < 0" and "intra_trade_low s k = Some l"
    and "\<not> close_price bar \<ge> min l (low_price bar) * (1 + trailing_percent s / 100)"
  shows "target_data (state_of (qp_on_bars_symbol s k bar)) = target_data s
         \<and> trace (state_of (qp_on_bars_symbol s k bar)) = trace s"
  using assms by (simp add: qp_step_defs split: option.splits)

section \<open>What the loops touch\<close>

lemma qp_signal_loop_frame:
  "ams (state_of (qp_signal_loop s bars)) = ams s
   \<and> pos_data (state_of (qp_signal_loop s bars)) = pos_data s
   \<and> count_list (trace (state_of (qp_signal_loop s bars))) RebalancePortfolio =
       count_list (trace s) RebalancePortfolio"
proof (induction s bars rule: qp_signal_loop.induct)
  case (1 s)
  then show ?case by simp
next
  case (2 s j b rest)
  show ?case
  proof (cases "qp_on_bars_symbol s j b")
    case (Next s')
    with qp_symbol_frame(1,2) [of s j b] qp_symbol_no_rebalance [of s j b] "2" [OF Next]
    show ?thesis by simp
  next
    case (Return s')
    with qp_symbol_frame(1,2) [of s j b] qp_symbol_no_rebalance [of s j b]
    show ?thesis by simp
  next
    case (Raise e s')
    with qp_symbol_frame(1,2) [of s j b] qp_symbol_no_rebalance [of s j b]
    show ?thesis by simp
  qed
qed

lemma qp_signal_loop_absent:
  "k \<notin> fst ` set bars \<Longrightarrow>
   target_data (state_of (qp_signal_loop s bars)) k = target_data s k
   \<and> target_calls k (trace (state_of (qp_signal_loop s bars))) = target_calls k (trace s)"
proof (induction s bars rule: qp_signal_loop.induct)
  case (1 s)
  then show ?case by simp
next
  case (2 s j b rest)
  from "2.prems" have jk: "j \<noteq> k" and rest: "k \<notin> fst ` set rest" by auto
  show ?case
  proof (cases "qp_on_bars_symbol s j b")
    case (Next s')
    with qp_symbol_other [OF jk, of s b] "2.IH" [OF Next rest]
    show ?thesis by simp
  next
    case (Return s')
    with qp_symbol_other [OF jk, of s b] show ?thesis by simp
  next
    case (Raise e s')
    with qp_symbol_other [OF jk, of s b] show ?thesis by simp
  qed
qed

lemma qp_signal_loop_append:
  "qp_signal_loop s (pre @ rest) =
     (case qp_signal_loop s pre of Next s' \<Rightarrow> qp_signal_loop s' rest | r \<Rightarrow> r)"
  by (induction s pre rule: qp_signal_loop.induct) (simp_all split: flow.splits)

lemma qp_signal_loop_calls_le:
  "distinct (map fst bars) \<Longrightarrow>
   target_calls k (trace (state_of (qp_signal_loop s bars))) \<le> target_calls k (trace s) + 1"
proof (induction s bars rule: qp_signal_loop.induct)
  case (1 s)
  then show ?case by simp
next
  case (2 s j b rest)
  from "2.prems" have d: "distinct (map fst rest)" and absent: "j \<notin> fst ` set rest"
    by auto
  show ?case
  proof (cases "qp_on_bars_symbol s j b")
    case (Next s')
    show ?thesis
    proof (cases "j = k")
      case True
      with qp_signal_loop_absent [OF absent, of s'] qp_symbol_calls_le [of k s j b] Next
      show ?thesis by simp
    next
      case False
      with qp_symbol_other(2) [of j k s b] "2.IH" [OF Next d] Next
      show ?thesis by simp
    qed
  next
    case (Return s')
    with qp_symbol_calls_le [of k s j b] show ?thesis by simp
  next
    case (Raise e s')
    with qp_symbol_calls_le [of k s j b] show ?thesis by simp
  qed
qed

lemma qp_signal_loop_gate_closed:
  assumes "ams s k = Some am" and "pos_data s k = 0"
    and "last (atr am (atr_window s)) \<le>
           mean (tail_slice (atr_ma_window s) (atr am (atr_window s)))"
  shows "target_data (state_of (qp_signal_loop s bars)) k = target_data s k
         \<and> target_calls k (trace (state_of (qp_signal_loop s bars))) = target_calls k (trace s)"
  using assms
proof (induction s bars rule: qp_signal_loop.induct)
  case (1 s)
  then show ?case by simp
next
  case (2 s j b rest)
  note step = qp_symbol_gate_closed [OF "2.prems", of j b]
  show ?case
  proof (cases "qp_on_bars_symbol s j b")
    case (Next s')
    from Next qp_symbol_frame [of s j b] "2.prems"
    have "ams s' k = Some am" "pos_data s' k = 0"
      "last (atr am (atr_window s')) \<le>
         mean (tail_slice (atr_ma_window s') (atr am (atr_window s')))"
      by simp_all
    from "2.IH" [OF Next this] step Next show ?thesis by simp
  next
    case (Return s')
    with step show ?thesis by simp
  next
    case (Raise e s')
    with step show ?thesis by simp
  qed
qed

lemma qp_signal_loop_long_hold:
  assumes "distinct (map fst bars)" and "map_of bars k = Some bar"
    and "0 < pos_data s k" and "intra_trade_high s k = Some h"
    and "\<not> close_price bar \<le> max h (high_price bar) * (1 - trailing_percent s / 100)"
  shows "target_data (state_of (qp_signal_loop s bars)) k = target_data s k
         \<and> target_calls k (trace (state_of (qp_signal_loop s bars))) = target_calls k (trace s)"
  using assms
proof (induction s bars rule: qp_signal_loop.induct)
  case (1 s)
  then show ?case by simp
next
  case (2 s j b rest)
  show ?case
  proof (cases "j = k")
    case True
    with "2.prems" have b: "b = bar" and absent: "k \<notin> fst ` set rest" by auto
    note step = qp_symbol_long_hold [OF "2.prems"(3,4,5)]
    show ?thesis
    proof (cases "qp_on_bars_symbol s k bar")
      case (Next s')
      with qp_signal_loop_absent [OF absent, of s'] step True b show ?thesis by simp
    next
      case (Return s')
      with step True b show ?thesis by simp
    next
      case (Raise e s')
      with step True b show ?thesis by simp
    qed
  next
    case False
    note step = qp_symbol_other [OF False, of s b]
    from False "2.prems" have d: "distinct (map fst rest)" and m: "map_of rest k = Some bar"
      by auto
    show ?thesis
    proof (cases "qp_on_bars_symbol s j b")
      case (Next s')
      from Next qp_symbol_frame [of s j b] qp_symbol_extremes_other [OF False, of s b] "2.prems"
      have "0 < pos_data s' k" "intra_trade_high s' k = Some h"
        "\<not> close_price bar \<le> max h (high_price bar) * (1 - trailing_percent s' / 100)"
        by simp_all
      from "2.IH" [OF Next d m this] step Next show ?thesis by simp
    next
      case (Return s')
      with step show ?thesis by simp
    next
      case (Raise e s')
      with step show ?thesis by simp
    qed
  qed
qed

lemma qp_signal_loop_short_hold:
  assumes "distinct (map fst bars)" and "map_of bars k = Some bar"
    and "pos_data s k < 0" and "intra_trade_low s k = Some l"
    and "\<not> close_price bar \<ge> min l (low_price bar) * (1 + trailing_percent s / 100)"
  shows "target_data (state_of (qp_signal_loop s bars)) k = target_data s k
         \<and> target_calls k (trace (state_of (qp_signal_loop s bars))) = target_calls k (trace s)"
  using assms
proof (induction s bars rule: qp_signal_loop.induct)
  case (1 s)
  then show ?case by simp
next
  case (2 s j b rest)
  show ?case
  proof (cases "j = k")
    case True
    with "2.prems" have b: "b = bar" and absent: "k \<notin> fst ` set rest" by auto
    note step = qp_symbol_short_hold [OF "2.prems"(3,4,5)]
    show ?thesis
    proof (cases "qp_on_bars_symbol s k bar")
      case (Next s')
      with qp_signal_loop_absent [OF absent, of s'] step True b show ?thesis by simp
    next
      case (Return s')
      with step True b show ?thesis by simp
    next
      case (Raise e s')
      with step True b show ?thesis by simp
    qed
  next
    case False
    note step = qp_symbol_other [OF False, of s b]
    from False "2.prems" have d: "distinct (map fst rest)" and m: "map_of rest k = Some bar"
      by auto
    show ?thesis
    proof (cases "qp_on_bars_symbol s j b")
      case (Next s')
      from Next qp_symbol_frame [of s j b] qp_symbol_extremes_other [OF False, of s b] "2.prems"
      have "pos_data s' k < 0" "intra_trade_low s' k = Some l"
        "\<not> close_price bar \<ge> min l (low_price bar) * (1 + trailing_percent s' / 100)"
        by simp_all
      from "2.IH" [OF Next d m this] step Next show ?thesis by simp
    next
      case (Return s')
      with step show ?thesis by simp
    next
      case (Raise e s')
      with step show ?thesis by simp
    qed
  qed
qed

lemma qp_update_loop_only_ams: "\<exists>m. state_of (qp_update_loop u s bars) = s\<lparr>ams := m\<rparr>"
proof (induction u s bars rule: qp_update_loop.induct)
  case (1 u s)
  have "s = s\<lparr>ams := ams s\<rparr>" by simp
  then show ?case by (simp only: qp_update_loop.simps state_of.simps) (rule exI)
next
  case (2 u s k b rest)
  show ?case
  proof (cases "ams s k")
    case None
    have "s = s\<lparr>ams := ams s\<rparr>" by simp
    then have "\<exists>m. s = s\<lparr>ams := m\<rparr>" by (rule exI [of _ "ams s"])
    with None show ?thesis by simp
  next
    case (Some am)
    from "2" [OF Some] obtain m where
      "state_of (qp_update_loop u (s\<lparr>ams := (ams s)(k \<mapsto> u am b)\<rparr>) rest) = s\<lparr>ams := m\<rparr>"
      by auto
    with Some have "state_of (qp_update_loop u s ((k, b) # rest)) = s\<lparr>ams := m\<rparr>"
      by simp
    then show ?thesis by (rule exI [of _ m])
  qed
qed

lemma qp_update_loop_no_return: "qp_update_loop u s bars \<noteq> Return s'"
  by (induction u s bars rule: qp_update_loop.induct) (simp_all split: option.splits)

lemma qp_update_loop_frame:
  "target_data (state_of (qp_update_loop u s bars)) = target_data s"
  "trace (state_of (qp_update_loop u s bars)) = trace s"
  "pos_data (state_of (qp_update_loop u s bars)) = pos_data s"
  "atr_window (state_of (qp_update_loop u s bars)) = atr_window s"
  "atr_ma_window (state_of (qp_update_loop u s bars)) = atr_ma_window s"
  "trailing_percent (state_of (qp_update_loop u s bars)) = trailing_percent s"
  "intra_trade_high (state_of (qp_update_loop u s bars)) = intra_trade_high s"
  "intra_trade_low (state_of (qp_update_loop u s bars)) = intra_trade_low s"
proof -
  obtain m where "state_of (qp_update_loop u s bars) = s\<lparr>ams := m\<rparr>"
    using qp_update_loop_only_ams by blast
  then show
    "target_data (state_of (qp_update_loop u s bars)) = target_data s"
    "trace (state_of (qp_update_loop u s bars)) = trace s"
    "pos_data (state_of (qp_update_loop u s bars)) = pos_data s"
    "atr_window (state_of (qp_update_loop u s bars)) = atr_window s"
    "atr_ma_window (state_of (qp_update_loop u s bars)) = atr_ma_window s"
    "trailing_percent (state_of (qp_update_loop u s bars)) = trailing_percent s"
    "intra_trade_high (state_of (qp_update_loop u s bars)) = intra_trade_high s"
    "intra_trade_low (state_of (qp_update_loop u s bars)) = intra_trade_low s"
    by simp_all
qed

lemma qp_on_bars_after_loops:
  "target_data (state_of (qp_on_bars u s bars)) =
     target_data (state_of (qp_signal_loop (state_of (qp_update_loop u s bars)) bars))
   \<and> (\<forall>k. target_calls k (trace (state_of (qp_on_bars u s bars))) =
        target_calls k
          (trace (state_of (qp_signal_loop (state_of (qp_update_loop u s bars)) bars))))
   \<or> (\<exists>e s1. qp_update_loop u s bars = Raise e s1 \<and> qp_on_bars u s bars = Raise e s1)"
proof (cases "qp_update_loop u s bars")
  case (Next s1)
  then show ?thesis
    by (cases "qp_signal_loop s1 bars")
      (simp_all add: qp_on_bars_def put_event_def rebalance_portfolio_def target_calls_append)
next
  case (Return s1)
  with qp_update_loop_no_return show ?thesis by blast
next
  case (Raise e s1)
  then show ?thesis by (simp add: qp_on_bars_def)
qed

section \<open>An instrument that the loop reaches\<close>

lemma target_values_append:
  "target_values k (xs @ ys) = target_values k xs @ target_values k ys"
  by (induction k xs rule: target_values.induct) simp_all

lemma qp_symbol_config:
  "rsi_window (state_of (qp_on_bars_symbol s j b)) = rsi_window s"
  "rsi_buy (state_of (qp_on_bars_symbol s j b)) = rsi_buy s"
  "rsi_sell (state_of (qp_on_bars_symbol s j b)) = rsi_sell s"
  "fixed_size (state_of (qp_on_bars_symbol s j b)) = fixed_size s"
  by (simp_all add: qp_step_defs split: option.splits)

lemma qp_symbol_view_other:
  assumes "j \<noteq> k"
  shows "instrument_view k (state_of (qp_on_bars_symbol s j b)) = instrument_view k s"
  using qp_symbol_calls [of s j b] qp_symbol_extremes_other [OF assms, of s b] assms
  by (auto simp: instrument_view_def target_values_append)

lemma qp_signal_loop_view_absent:
  "k \<notin> fst ` set bars \<Longrightarrow>
   instrument_view k (state_of (qp_signal_loop s bars)) = instrument_view k s"
proof (induction s bars rule: qp_signal_loop.induct)
  case (1 s)
  then show ?case by simp
next
  case (2 s j b rest)
  from "2.prems" have jk: "j \<noteq> k" and rest: "k \<notin> fst ` set rest" by auto
  show ?case
  proof (cases "qp_on_bars_symbol s j b")
    case (Next s')
    with qp_symbol_view_other [OF jk, of s b] "2.IH" [OF Next rest]
    show ?thesis by simp
  next
    case (Return s')
    with qp_symbol_view_other [OF jk, of s b] show ?thesis by simp
  next
    case (Raise e s')
    with qp_symbol_view_other [OF jk, of s b] show ?thesis by simp
  qed
qed

lemma qp_signal_loop_config:
  "atr_window (state_of (qp_signal_loop s bars)) = atr_window s
   \<and> atr_ma_window (state_of (qp_signal_loop s bars)) = atr_ma_window s
   \<and> rsi_window (state_of (qp_signal_loop s bars)) = rsi_window s
   \<and> rsi_buy (state_of (qp_signal_loop s bars)) = rsi_buy s
   \<and> rsi_sell (state_of (qp_signal_loop s bars)) = rsi_sell s
   \<and> fixed_size (state_of (qp_signal_loop s bars)) = fixed_size s
   \<and> trailing_percent (state_of (qp_signal_loop s bars)) = trailing_percent s"
proof (induction s bars rule: qp_signal_loop.induct)
  case (1 s)
  then show ?case by simp
next
  case (2 s j b rest)
  note fr = qp_symbol_frame(3,4,5) [of s j b] qp_symbol_config [of s j b]
  show ?case
  proof (cases "qp_on_bars_symbol s j b")
    case (Next s')
    with fr "2" [OF Next] show ?thesis by simp
  next
    case (Return s')
    with fr show ?thesis by simp
  next
    case (Raise e s')
    with fr show ?thesis by simp
  qed
qed

lemma qp_update_loop_config:
  "rsi_window (state_of (qp_update_loop u s bars)) = rsi_window s"
  "rsi_buy (state_of (qp_update_loop u s bars)) = rsi_buy s"
  "rsi_sell (state_of (qp_update_loop u s bars)) = rsi_sell s"
  "fixed_size (state_of (qp_update_loop u s bars)) = fixed_size s"
  "instrument_view k (state_of (qp_update_loop u s bars)) = instrument_view k s"
proof -
  obtain m where "state_of (qp_update_loop u s bars) = s\<lparr>ams := m\<rparr>"
    using qp_update_loop_only_ams by blast
  then show
    "rsi_window (state_of (qp_update_loop u s bars)) = rsi_window s"
    "rsi_buy (state_of (qp_update_loop u s bars)) = rsi_buy s"
    "rsi_sell (state_of (qp_update_loop u s bars)) = rsi_sell s"
    "fixed_size (state_of (qp_update_loop u s bars)) = fixed_size s"
    "instrument_view k (state_of (qp_update_loop u s bars)) = instrument_view k s"
    by (simp_all add: instrument_view_def)
qed

lemma qp_on_bars_view:
  assumes "qp_update_loop u s bars = Next s1"
  shows "instrument_view k (state_of (qp_on_bars u s bars)) =
         instrument_view k (state_of (qp_signal_loop s1 bars))"
  using assms
  by (cases "qp_signal_loop s1 bars")
    (simp_all add: qp_on_bars_def put_event_def rebalance_portfolio_def instrument_view_def
      target_values_append)

text \<open>
  When the bars of the slice are \<open>pre @ (k, bar) # post\<close> with distinct instruments, the
  indicator updates succeed and the loop passes \<open>pre\<close> without returning or raising, then
  what \<open>on_bars\<close> leaves for \<open>k\<close> is what the loop body leaves for it, run in a state that
  agrees with the initial one on everything the body reads for \<open>k\<close>.
\<close>

lemma qp_on_bars_reached:
  assumes "distinct (map fst bars)" and "bars = pre @ (k, bar) # post"
    and "qp_update_loop u s bars = Next s1"
    and "qp_signal_loop s1 pre = Next s2"
  shows "instrument_view k (state_of (qp_on_bars u s bars)) =
         instrument_view k (state_of (qp_on_bars_symbol s2 k bar))"
proof -
  from assms(1,2) have absent: "k \<notin> fst ` set post" by auto
  have loop: "qp_signal_loop s1 bars =
      (case qp_on_bars_symbol s2 k bar of Next s3 \<Rightarrow> qp_signal_loop s3 post | r \<Rightarrow> r)"
    using assms(2,4) by (simp add: qp_signal_loop_append)
  have "instrument_view k (state_of (qp_signal_loop s1 bars)) =
        instrument_view k (state_of (qp_on_bars_symbol s2 k bar))"
  proof (cases "qp_on_bars_symbol s2 k bar")
    case (Next s3)
    with loop qp_signal_loop_view_absent [OF absent, of s3] show ?thesis by simp
  next
    case (Return s3)
    with loop show ?thesis by simp
  next
    case (Raise e s3)
    with loop show ?thesis by simp
  qed
  with qp_on_bars_view [OF assms(3), of k] show ?thesis by simp
qed

lemma qp_reached_state:
  assumes "distinct (map fst bars)" and "bars = pre @ (k, bar) # post"
    and "qp_update_loop u s bars = Next s1"
    and "qp_signal_loop s1 pre = Next s2"
  shows "ams s2 = ams s1" and "pos_data s2 = pos_data s"
    and "atr_window s2 = atr_window s" and "atr_ma_window s2 = atr_ma_window s"
    and "rsi_window s2 = rsi_window s" and "rsi_buy s2 = rsi_buy s"
    and "rsi_sell s2 = rsi_sell s" and "fixed_size s2 = fixed_size s"
    and "trailing_percent s2 = trailing_percent s"
    and "instrument_view k s2 = instrument_view k s"
proof -
  from assms(1,2) have absent: "k \<notin> fst ` set pre" by auto
  note up = qp_update_loop_frame [of u s bars] qp_update_loop_config [where u = u and s = s and bars = bars]
  from qp_signal_loop_frame [of s1 pre] assms(3,4) up
  show "ams s2 = ams s1" and "pos_data s2 = pos_data s"
    by simp_all
  from qp_signal_loop_config [of s1 pre] assms(3,4) up
  show "atr_window s2 = atr_window s" and "atr_ma_window s2 = atr_ma_window s"
    and "rsi_window s2 = rsi_window s" and "rsi_buy s2 = rsi_buy s"
    and "rsi_sell s2 = rsi_sell s" and "fixed_size s2 = fixed_size s"
    and "trailing_percent s2 = trailing_percent s"
    by simp_all
  from qp_signal_loop_view_absent [OF absent, of s1] assms(3,4)
    qp_update_loop_config(5) [where k = k and u = u and s = s and bars = bars]
  show "instrument_view k s2 = instrument_view k s"
    by simp
qed

text \<open>What the loop body leaves for the instrument it is run on.\<close>

lemma qp_symbol_entry_view:
  assumes "ams s k = Some am" and "inited am" and "atr am (atr_window s) \<noteq> []"
    and "pos_data s k = 0"
    and "last (atr am (atr_window s)) >
           mean (tail_slice (atr_ma_window s) (atr am (atr_window s)))"
  shows "instrument_view k (state_of (qp_on_bars_symbol s k bar)) =
           (let signal = (if rsi am (rsi_window s) > rsi_buy s then fixed_size s
                          else if rsi am (rsi_window s) < rsi_sell s then - fixed_size s
                          else 0)
            in (signal, target_values k (trace s) @ [signal],
                Some (high_price bar), Some (low_price bar)))"
  using assms by (simp add: instrument_view_def qp_step_defs target_values_append)

lemma qp_symbol_long_view:
  assumes "ams s k = Some am" and "inited am" and "atr am (atr_window s) \<noteq> []"
    and "0 < pos_data s k" and "intra_trade_high s k = Some h"
  shows "instrument_view k (state_of (qp_on_bars_symbol s k bar)) =
           (let stopped = (close_price bar \<le>
                             max h (high_price bar) * (1 - trailing_percent s / 100))
            in (if stopped then 0 else target_data s k,
                target_values k (trace s) @ (if stopped then [0] else []),
                Some (max h (high_price bar)), Some (low_price bar)))"
  using assms by (simp add: instrument_view_def qp_step_defs target_values_append)

lemma qp_symbol_short_view:
  assumes "ams s k = Some am" and "inited am" and "atr am (atr_window s) \<noteq> []"
    and "pos_data s k < 0" and "intra_trade_low s k = Some l"
  shows "instrument_view k (state_of (qp_on_bars_symbol s k bar)) =
           (let stopped = (close_price bar \<ge>
                             min l (low_price bar) * (1 + trailing_percent s / 100))
            in (if stopped then 0 else target_data s k,
                target_values k (trace s) @ (if stopped then [0] else []),
                Some (high_price bar), Some (min l (low_price bar))))"
  using assms by (simp add: instrument_view_def qp_step_defs target_values_append)

text \<open>The same three facts for \<open>on_bars\<close>, for an instrument that the loop reaches.\<close>

lemma qp_on_bars_entry_view:
  assumes "distinct (map fst bars)" and "bars = pre @ (k, bar) # post"
    and "qp_update_loop u s bars = Next s1"
    and "qp_signal_loop s1 pre = Next s2"
    and "ams s1 k = Some am" and "inited am" and "atr am (atr_window s) \<noteq> []"
    and "pos_data s k = 0"
    and "last (atr am (atr_window s)) >
           mean (tail_slice (atr_ma_window s) (atr am (atr_window s)))"
  shows "instrument_view k (state_of (qp_on_bars u s bars)) =
           (let signal = (if rsi am (rsi_window s) > rsi_buy s then fixed_size s
                          else if rsi am (rsi_window s) < rsi_sell s then - fixed_size s
                          else 0)
            in (signal, target_values k (trace s) @ [signal],
                Some (high_price bar), Some (low_price bar)))"
proof -
  note st = qp_reached_state [OF assms(1-4)]
  from st(10) have tv: "target_values k (trace s2) = target_values k (trace s)"
    by (simp add: instrument_view_def)
  have "ams s2 k = Some am" "atr am (atr_window s2) \<noteq> []" "pos_data s2 k = 0"
    "last (atr am (atr_window s2)) >
       mean (tail_slice (atr_ma_window s2) (atr am (atr_window s2)))"
    using assms(5,7,8,9) st(1-4) by simp_all
  from qp_symbol_entry_view [OF this(1) assms(6) this(2,3,4), of bar]
    qp_on_bars_reached [OF assms(1-4)]
  show ?thesis by (simp add: st(5-8) tv Let_def cong: if_cong)
qed

lemma qp_on_bars_long_view:
  assumes "distinct (map fst bars)" and "bars = pre @ (k, bar) # post"
    and "qp_update_loop u s bars = Next s1"
    and "qp_signal_loop s1 pre = Next s2"
    and "ams s1 k = Some am" and "inited am" and "atr am (atr_window s) \<noteq> []"
    and "0 < pos_data s k" and "intra_trade_high s k = Some h"
  shows "instrument_view k (state_of (qp_on_bars u s bars)) =
           (let stopped = (close_price bar \<le>
                             max h (high_price bar) * (1 - trailing_percent s / 100))
            in (if stopped then 0 else target_data s k,
                target_values k (trace s) @ (if stopped then [0] else []),
                Some (max h (high_price bar)), Some (low_price bar)))"
proof -
  note st = qp_reached_state [OF assms(1-4)]
  from st(10) have tv: "target_values k (trace s2) = target_values k (trace s)"
    "target_data s2 k = target_data s k" "intra_trade_high s2 k = intra_trade_high s k"
    by (simp_all add: instrument_view_def)
  have "ams s2 k = Some am" "atr am (atr_window s2) \<noteq> []" "0 < pos_data s2 k"
    "intra_trade_high s2 k = Some h"
    using assms(5,7,8,9) st(1-4) tv by simp_all
  from qp_symbol_long_view [OF this(1) assms(6) this(2,3,4), of bar]
    qp_on_bars_reached [OF assms(1-4)]
  show ?thesis by (simp add: st(9) tv Let_def cong: if_cong)
qed

lemma qp_on_bars_short_view:
  assumes "distinct (map fst bars)" and "bars = pre @ (k, bar) # post"
    and "qp_update_loop u s bars = Next s1"
    and "qp_signal_loop s1 pre = Next s2"
    and "ams s1 k = Some am" and "inited am" and "atr am (atr_window s) \<noteq> []"
    and "pos_data s k < 0" and "intra_trade_low s k = Some l"
  shows "instrument_view k (state_of (qp_on_bars u s bars)) =
           (let stopped = (close_price bar \<ge>
                             min l (low_price bar) * (1 + trailing_percent s / 100))
            in (if stopped then 0 else target_data s k,
                target_values k (trace s) @ (if stopped then [0] else []),
                Some (high_price bar), Some (min l (low_price bar))))"
proof -
  note st = qp_reached_state [OF assms(1-4)]
  from st(10) have tv: "target_values k (trace s2) = target_values k (trace s)"
    "target_data s2 k = target_data s k" "intra_trade_low s2 k = intra_trade_low s k"
    by (simp_all add: instrument_view_def)
  have "ams s2 k = Some am" "atr am (atr_window s2) \<noteq> []" "pos_data s2 k < 0"
    "intra_trade_low s2 k = Some l"
    using assms(5,7,8,9) st(1-4) tv by simp_all
  from qp_symbol_short_view [OF this(1) assms(6) this(2,3,4), of bar]
    qp_on_bars_reached [OF assms(1-4)]
  show ?thesis by (simp add: st(9) tv Let_def cong: if_cong)
qed

section \<open>Warm-up\<close>

text \<open>
  Claim C1, as amended. When the loop reaches an instrument whose indicator state is not
  initialised, \<open>on_bars\<close> returns at that point, in both variants: no rebalance is
  performed, and for that instrument and every instrument iterated after it no
  \<open>set_target\<close> call is made and the target is unchanged. If it is the first instrument
  of the slice, the indicator updates are the only change of state.
\<close>

theorem cold_instrument_stops_slice:
  assumes "qp_update_loop u s bars = Next s1"
    and "bars = pre @ (k, b) # post"
    and "qp_signal_loop s1 pre = Next s2"
    and "ams s1 k = Some am"
    and "\<not> inited am"
  shows "qp_on_bars u s bars = Return s2 \<and> mr_on_bars u s bars = Return s2
         \<and> count_list (trace s2) RebalancePortfolio = count_list (trace s) RebalancePortfolio
         \<and> (\<forall>j. j \<notin> fst ` set pre \<longrightarrow>
               target_data s2 j = target_data s j
               \<and> target_calls j (trace s2) = target_calls j (trace s))
         \<and> (pre = [] \<longrightarrow> s2 = s\<lparr>ams := ams s1\<rparr>)"
proof -
  note fr = qp_update_loop_frame [of u s bars]
  from qp_signal_loop_frame [of s1 pre] assms(3)
  have a2: "ams s2 = ams s1"
    and r2: "count_list (trace s2) RebalancePortfolio = count_list (trace s1) RebalancePortfolio"
    by simp_all
  from a2 assms(4,5) have "qp_on_bars_symbol s2 k b = Return s2"
    by (simp add: qp_on_bars_symbol_def)
  with assms(2,3) have "qp_signal_loop s1 bars = Return s2"
    by (simp add: qp_signal_loop_append)
  with assms(1) have ret: "qp_on_bars u s bars = Return s2"
    by (simp add: qp_on_bars_def)
  have reb: "count_list (trace s2) RebalancePortfolio = count_list (trace s) RebalancePortfolio"
    using r2 fr(2) assms(1) by simp
  have later: "\<forall>j. j \<notin> fst ` set pre \<longrightarrow>
      target_data s2 j = target_data s j \<and> target_calls j (trace s2) = target_calls j (trace s)"
  proof (intro allI impI)
    fix j
    assume "j \<notin> fst ` set pre"
    from qp_signal_loop_absent [OF this, of s1] assms(3) fr(1,2) assms(1)
    show "target_data s2 j = target_data s j
          \<and> target_calls j (trace s2) = target_calls j (trace s)"
      by simp
  qed
  have first: "pre = [] \<longrightarrow> s2 = s\<lparr>ams := ams s1\<rparr>"
  proof
    assume "pre = []"
    with assms(3) have e: "s2 = s1" by simp
    obtain m where m: "s1 = s\<lparr>ams := m\<rparr>"
      using qp_update_loop_only_ams [of u s bars] assms(1) by auto
    have "s\<lparr>ams := m\<rparr> = s\<lparr>ams := ams (s\<lparr>ams := m\<rparr>)\<rparr>" by simp
    with m e show "s2 = s\<lparr>ams := ams s1\<rparr>" by simp
  qed
  from ret reb later first show ?thesis by (simp add: mr_on_bars_eq)
qed

theorem cold_instrument_stops_slice_witness:
  "\<not> inited cold_am
   \<and> qp_on_bars same_readings half_warm_strategy two_bars =
       Return (state_of (qp_signal_loop half_warm_strategy [(''A'', example_bar)]))
   \<and> count_list (trace (state_of (qp_signal_loop half_warm_strategy [(''A'', example_bar)])))
       RebalancePortfolio = 0
   \<and> target_calls ''B''
       (trace (state_of (qp_signal_loop half_warm_strategy [(''A'', example_bar)]))) = 0
   \<and> trace (state_of (qp_on_bars same_readings half_warm_strategy cold_first_bars)) = []
   \<and> target_data (state_of (qp_on_bars same_readings half_warm_strategy cold_first_bars)) ''A'' = 0"
proof -
  let ?s1 = "state_of (qp_update_loop same_readings half_warm_strategy two_bars)"
  let ?s2 = "state_of (qp_signal_loop ?s1 [(''A'', example_bar)])"
  have s1: "?s1 = half_warm_strategy"
    by (simp add: half_warm_strategy_def two_bars_def concrete_defs)
  have h1: "qp_update_loop same_readings half_warm_strategy two_bars = Next ?s1"
    by (simp add: half_warm_strategy_def two_bars_def concrete_defs)
  have h2: "two_bars = [(''A'', example_bar)] @ (''B'', example_bar) # []"
    by (simp add: two_bars_def)
  have h3: "qp_signal_loop ?s1 [(''A'', example_bar)] = Next ?s2"
    by (simp add: s1) (simp add: half_warm_strategy_def concrete_defs qp_step_defs)
  have h4: "ams ?s1 ''B'' = Some cold_am"
    by (simp add: s1) (simp add: half_warm_strategy_def)
  have h5: "\<not> inited cold_am"
    by (simp add: cold_am_def)
  have t: "trace half_warm_strategy = []"
    by (simp add: half_warm_strategy_def concrete_defs)
  from cold_instrument_stops_slice [OF h1 h2 h3 h4 h5] h5 t
  have late: "qp_on_bars same_readings half_warm_strategy two_bars =
       Return (state_of (qp_signal_loop half_warm_strategy [(''A'', example_bar)]))
     \<and> count_list (trace (state_of (qp_signal_loop half_warm_strategy [(''A'', example_bar)])))
         RebalancePortfolio = 0
     \<and> target_calls ''B''
         (trace (state_of (qp_signal_loop half_warm_strategy [(''A'', example_bar)]))) = 0"
    by (simp add: s1)
  let ?t1 = "state_of (qp_update_loop same_readings half_warm_strategy cold_first_bars)"
  have g1: "qp_update_loop same_readings half_warm_strategy cold_first_bars = Next ?t1"
    by (simp add: half_warm_strategy_def cold_first_bars_def concrete_defs)
  have g2: "cold_first_bars = [] @ (''B'', example_bar) # [(''A'', example_bar)]"
    by (simp add: cold_first_bars_def)
  have g3: "qp_signal_loop ?t1 [] = Next ?t1"
    by simp
  have g4: "ams ?t1 ''B'' = Some cold_am"
    by (simp add: half_warm_strategy_def cold_first_bars_def concrete_defs)
  have z: "target_data half_warm_strategy ''A'' = 0"
    by (simp add: half_warm_strategy_def concrete_defs)
  from cold_instrument_stops_slice [OF g1 g2 g3 g4 h5] t z
  have first: "trace (state_of (qp_on_bars same_readings half_warm_strategy cold_first_bars)) = []
     \<and> target_data (state_of (qp_on_bars same_readings half_warm_strategy cold_first_bars)) ''A''
         = 0"
    by (simp add: qp_update_loop_frame)
  from h5 late first show ?thesis by blast
qed

text \<open>
  Claim C1 as stated fails. \<open>A\<close> is warmed up and flat, its ATR is above the moving average
  and its RSI above the buy threshold; \<open>B\<close>, iterated after \<open>A\<close>, is not warmed up. The
  slice returns early, but \<open>set_target(A, 1)\<close> has been called and the target of \<open>A\<close> has
  changed from \<open>0\<close> to \<open>1\<close>.
\<close>

theorem cold_instrument_counterexample:
  "ams half_warm_strategy ''B'' = Some cold_am \<and> \<not> inited cold_am
   \<and> target_data half_warm_strategy ''A'' = 0 \<and> trace half_warm_strategy = []
   \<and> target_data (state_of (qp_on_bars same_readings half_warm_strategy two_bars)) ''A'' = 1
   \<and> trace (state_of (qp_on_bars same_readings half_warm_strategy two_bars)) =
       [SetTarget ''A'' 1]
   \<and> target_data (state_of (mr_on_bars same_readings half_warm_strategy two_bars)) ''A'' = 1
   \<and> trace (state_of (mr_on_bars same_readings half_warm_strategy two_bars)) =
       [SetTarget ''A'' 1]"
  by (simp add: mr_on_bars_eq)
    (simp add: half_warm_strategy_def two_bars_def concrete_defs qp_on_bars_def qp_step_defs)

section \<open>Entries\<close>

text \<open>
  Claim C3. Take a state whose thresholds are the ones \<open>MeanReversionStrategy.on_init\<close>
  derives (any state with \<open>rsi_buy = 50 + rsi_entry\<close> and \<open>rsi_sell = 50 - rsi_entry\<close> is
  \<open>mr_on_init\<close> of itself), and an instrument of the slice that the loop of \<open>on_bars\<close>
  reaches, that is flat and whose ATR exceeds its ATR moving average. Then \<open>on_bars\<close> makes
  exactly one \<open>set_target\<close> call for it and leaves its target at \<open>+fixed_size\<close> if the RSI
  is above \<open>50 + rsi_entry\<close>, else at \<open>-fixed_size\<close> if the RSI is below \<open>50 - rsi_entry\<close>,
  else at \<open>0\<close>. \<open>QuadProgStrategy.on_bars\<close> run on that state does the same.
\<close>

theorem entry_signal_when_flat:
  assumes "distinct (map fst bars)" and "bars = pre @ (k, bar) # post"
    and "mr_update_loop u (mr_on_init s0) bars = Next s1"
    and "mr_signal_loop s1 pre = Next s2"
    and "ams s1 k = Some am" and "inited am" and "atr am (atr_window s0) \<noteq> []"
    and "get_pos s0 k = 0"
    and "last (atr am (atr_window s0)) >
           mean (tail_slice (atr_ma_window s0) (atr am (atr_window s0)))"
  shows "(let signal = (if rsi am (rsi_window s0) > 50 + rsi_entry s0 then fixed_size s0
                        else if rsi am (rsi_window s0) < 50 - rsi_entry s0 then - fixed_size s0
                        else 0);
              r = mr_on_bars u (mr_on_init s0) bars
          in target_data (state_of r) k = signal
             \<and> target_values k (trace (state_of r)) = target_values k (trace s0) @ [signal]
             \<and> qp_on_bars u (mr_on_init s0) bars = r)"
proof -
  let ?s = "mr_on_init s0"
  have f: "atr_window ?s = atr_window s0" "atr_ma_window ?s = atr_ma_window s0"
    "rsi_window ?s = rsi_window s0" "fixed_size ?s = fixed_size s0"
    "pos_data ?s = pos_data s0" "trace ?s = trace s0"
    "rsi_buy ?s = 50 + rsi_entry s0" "rsi_sell ?s = 50 - rsi_entry s0"
    by (simp_all add: mr_on_init_def)
  have u: "qp_update_loop u ?s bars = Next s1" and l: "qp_signal_loop s1 pre = Next s2"
    using assms(3,4) by (simp_all add: mr_update_loop_eq mr_signal_loop_eq)
  have "atr am (atr_window ?s) \<noteq> []" "pos_data ?s k = 0"
    "last (atr am (atr_window ?s)) >
       mean (tail_slice (atr_ma_window ?s) (atr am (atr_window ?s)))"
    using assms(7,8,9) by (simp_all add: f get_pos_def)
  from qp_on_bars_entry_view [OF assms(1,2) u l assms(5,6) this, unfolded f]
  show ?thesis
    by (simp add: mr_on_bars_eq instrument_view_def Let_def split: if_splits)
qed

text \<open>
  The entry scenario on a slice of two instruments: thresholds \<open>60\<close> and \<open>40\<close>; \<open>A\<close> with
  RSI \<open>65\<close> gets \<open>+1\<close>, and \<open>B\<close>, reached after \<open>A\<close>, with RSI \<open>30\<close> gets \<open>-1\<close>.
\<close>

theorem entry_signal_when_flat_witness:
  "get_pos scenario_config ''A'' = 0 \<and> get_pos scenario_config ''B'' = 0
   \<and> rsi_buy (mr_on_init scenario_config) = 60 \<and> rsi_sell (mr_on_init scenario_config) = 40
   \<and> target_data (state_of (mr_on_bars same_readings (mr_on_init scenario_config) two_bars))
        ''A'' = 1
   \<and> target_data (state_of (qp_on_bars same_readings (mr_on_init scenario_config) two_bars))
        ''B'' = - 1
   \<and> trace (state_of (mr_on_bars same_readings (mr_on_init scenario_config) two_bars)) =
        [SetTarget ''A'' 1, SetTarget ''B'' (- 1), RebalancePortfolio, PutEvent]"
proof -
  let ?s = "mr_on_init scenario_config"
  let ?s1 = "state_of (mr_update_loop same_readings ?s two_bars)"
  let ?sa = "state_of (mr_signal_loop ?s1 [(''A'', example_bar)])"
  let ?ama = "warm_am [4 / 5, 6 / 5] 65"
  let ?amb = "warm_am [4 / 5, 6 / 5] 30"
  note defs = scenario_config_def two_bars_def concrete_defs
  have d: "distinct (map fst two_bars)"
    by (simp add: two_bars_def)
  have sa: "two_bars = [] @ (''A'', example_bar) # [(''B'', example_bar)]"
    and sb: "two_bars = [(''A'', example_bar)] @ (''B'', example_bar) # []"
    by (simp_all add: two_bars_def)
  have u: "mr_update_loop same_readings ?s two_bars = Next ?s1"
    by (simp add: defs)
  have l0: "mr_signal_loop ?s1 [] = Next ?s1"
    by simp
  have la: "mr_signal_loop ?s1 [(''A'', example_bar)] = Next ?sa"
    by (simp add: defs mr_on_bars_symbol_eq qp_step_defs)
  have a: "ams ?s1 ''A'' = Some ?ama" "ams ?s1 ''B'' = Some ?amb"
    by (simp_all add: defs)
  have i: "inited ?ama" "inited ?amb"
    "atr ?ama (atr_window scenario_config) \<noteq> []"
    "atr ?amb (atr_window scenario_config) \<noteq> []"
    by (simp_all add: warm_am_def)
  have p: "get_pos scenario_config ''A'' = 0" "get_pos scenario_config ''B'' = 0"
    by (simp_all add: defs get_pos_def)
  have g: "last (atr ?ama (atr_window scenario_config)) >
      mean (tail_slice (atr_ma_window scenario_config) (atr ?ama (atr_window scenario_config)))"
    "last (atr ?amb (atr_window scenario_config)) >
      mean (tail_slice (atr_ma_window scenario_config) (atr ?amb (atr_window scenario_config)))"
    by (simp_all add: defs)
  have v: "rsi ?ama (rsi_window scenario_config) = 65"
    "rsi ?amb (rsi_window scenario_config) = 30"
    "rsi_entry scenario_config = 10" "fixed_size scenario_config = 1"
    "trace scenario_config = []"
    by (simp_all add: defs)
  have th: "rsi_buy ?s = 60 \<and> rsi_sell ?s = 40"
    by (simp add: defs)
  from entry_signal_when_flat [OF d sa u l0 a(1) i(1,3) p(1) g(1)]
  have ra: "target_data (state_of (mr_on_bars same_readings ?s two_bars)) ''A'' = 1"
    by (simp add: v Let_def)
  from entry_signal_when_flat [OF d sb u la a(2) i(2,4) p(2) g(2)]
  have rb: "target_data (state_of (qp_on_bars same_readings ?s two_bars)) ''B'' = - 1"
    by (simp add: v Let_def)
  have tr: "trace (state_of (mr_on_bars same_readings ?s two_bars)) =
        [SetTarget ''A'' 1, SetTarget ''B'' (- 1), RebalancePortfolio, PutEvent]"
    by (simp add: mr_on_bars_eq)
      (simp add: defs qp_on_bars_def qp_step_defs put_event_def rebalance_portfolio_def)
  from p th ra rb tr show ?thesis by blast
qed

text \<open>
  Claim C4. An instrument that is flat with target \<open>0\<close>, and whose ATR after this slice's
  indicator update is at most its ATR moving average, has target \<open>0\<close> after \<open>on_bars\<close> of
  either variant, however the slice ends and whatever its RSI; no \<open>set_target\<close> call is
  made for it.
\<close>

theorem gate_closed_target_stays_zero:
  assumes "ams (state_of (qp_update_loop u s bars)) k = Some am"
    and "get_pos s k = 0"
    and "target_data s k = 0"
    and "last (atr am (atr_window s)) \<le>
           mean (tail_slice (atr_ma_window s) (atr am (atr_window s)))"
  shows "target_data (state_of (qp_on_bars u s bars)) k = 0
         \<and> target_calls k (trace (state_of (qp_on_bars u s bars))) = target_calls k (trace s)
         \<and> target_data (state_of (mr_on_bars u s bars)) k = 0
         \<and> target_calls k (trace (state_of (mr_on_bars u s bars))) = target_calls k (trace s)"
proof -
  let ?s1 = "state_of (qp_update_loop u s bars)"
  note fr = qp_update_loop_frame [of u s bars]
  have "pos_data ?s1 k = 0"
    using assms(2) by (simp add: fr get_pos_def)
  moreover have "last (atr am (atr_window ?s1)) \<le>
      mean (tail_slice (atr_ma_window ?s1) (atr am (atr_window ?s1)))"
    using assms(4) by (simp add: fr)
  ultimately have loop:
    "target_data (state_of (qp_signal_loop ?s1 bars)) k = target_data ?s1 k
     \<and> target_calls k (trace (state_of (qp_signal_loop ?s1 bars))) = target_calls k (trace ?s1)"
    using qp_signal_loop_gate_closed [OF assms(1)] by blast
  have "target_data (state_of (qp_on_bars u s bars)) k = 0
        \<and> target_calls k (trace (state_of (qp_on_bars u s bars))) = target_calls k (trace s)"
    using qp_on_bars_after_loops [of u s bars] loop assms(3) fr(1,2) by auto
  then show ?thesis by (simp add: mr_on_bars_eq)
qed

theorem gate_closed_target_stays_zero_witness:
  "get_pos calm_strategy ''A'' = 0 \<and> target_data calm_strategy ''A'' = 0
   \<and> rsi (warm_am [2, 1] 70) (rsi_window calm_strategy) > rsi_buy calm_strategy
   \<and> target_data (state_of (qp_on_bars same_readings calm_strategy one_bar)) ''A'' = 0
   \<and> target_calls ''A'' (trace (state_of (qp_on_bars same_readings calm_strategy one_bar))) = 0"
proof -
  let ?am = "warm_am [2, 1] 70"
  have h1: "ams (state_of (qp_update_loop same_readings calm_strategy one_bar)) ''A'' = Some ?am"
    by (simp add: calm_strategy_def one_bar_def concrete_defs)
  have h2: "get_pos calm_strategy ''A'' = 0"
    by (simp add: calm_strategy_def get_pos_def concrete_defs)
  have h3: "target_data calm_strategy ''A'' = 0"
    by (simp add: calm_strategy_def concrete_defs)
  have h4: "last (atr ?am (atr_window calm_strategy)) \<le>
      mean (tail_slice (atr_ma_window calm_strategy) (atr ?am (atr_window calm_strategy)))"
    by (simp add: calm_strategy_def concrete_defs)
  have v: "rsi ?am (rsi_window calm_strategy) > rsi_buy calm_strategy"
    "trace calm_strategy = []"
    by (simp_all add: calm_strategy_def concrete_defs)
  from gate_closed_target_stays_zero [OF h1 h2 h3 h4] h2 h3 v show ?thesis by simp
qed

section \<open>Trailing stops\<close>

text \<open>
  Claim C5. For an instrument of the slice with an open position that the loop of
  \<open>on_bars\<close> reaches, \<open>on_bars\<close> of either variant calls \<open>set_target(vt_symbol, 0)\<close> for it,
  leaving its target at \<open>0\<close>, exactly when the stop is crossed, and otherwise makes no call
  for it and leaves its target as it was: when long, iff
  \<open>close \<le> intra_trade_high * (1 - trailing_percent / 100)\<close>; when short, iff
  \<open>close \<ge> intra_trade_low * (1 + trailing_percent / 100)\<close>, each with the extreme as updated
  by this bar.
\<close>

theorem trailing_stop_exit:
  assumes "distinct (map fst bars)" and "bars = pre @ (k, bar) # post"
    and "qp_update_loop u s bars = Next s1"
    and "qp_signal_loop s1 pre = Next s2"
    and "ams s1 k = Some am" and "inited am" and "atr am (atr_window s) \<noteq> []"
  shows "(0 < get_pos s k \<and> intra_trade_high s k = Some h \<longrightarrow>
            (let r = qp_on_bars u s bars;
                 long_stop = max h (high_price bar) * (1 - trailing_percent s / 100)
             in mr_on_bars u s bars = r
                \<and> intra_trade_high (state_of r) k = Some (max h (high_price bar))
                \<and> target_values k (trace (state_of r)) =
                     target_values k (trace s) @ (if close_price bar \<le> long_stop then [0] else [])
                \<and> target_data (state_of r) k =
                     (if close_price bar \<le> long_stop then 0 else target_data s k)))
         \<and> (get_pos s k < 0 \<and> intra_trade_low s k = Some l \<longrightarrow>
            (let r = qp_on_bars u s bars;
                 short_stop = min l (low_price bar) * (1 + trailing_percent s / 100)
             in mr_on_bars u s bars = r
                \<and> intra_trade_low (state_of r) k = Some (min l (low_price bar))
                \<and> target_values k (trace (state_of r)) =
                     target_values k (trace s) @ (if close_price bar \<ge> short_stop then [0] else [])
                \<and> target_data (state_of r) k =
                     (if close_price bar \<ge> short_stop then 0 else target_data s k)))"
proof (intro conjI impI)
  assume "0 < get_pos s k \<and> intra_trade_high s k = Some h"
  then have "0 < pos_data s k" "intra_trade_high s k = Some h"
    by (simp_all add: get_pos_def)
  from qp_on_bars_long_view [OF assms this]
  show "let r = qp_on_bars u s bars;
            long_stop = max h (high_price bar) * (1 - trailing_percent s / 100)
        in mr_on_bars u s bars = r
           \<and> intra_trade_high (state_of r) k = Some (max h (high_price bar))
           \<and> target_values k (trace (state_of r)) =
                target_values k (trace s) @ (if close_price bar \<le> long_stop then [0] else [])
           \<and> target_data (state_of r) k =
                (if close_price bar \<le> long_stop then 0 else target_data s k)"
    by (simp add: mr_on_bars_eq instrument_view_def Let_def split: if_splits)
next
  assume "get_pos s k < 0 \<and> intra_trade_low s k = Some l"
  then have "pos_data s k < 0" "intra_trade_low s k = Some l"
    by (simp_all add: get_pos_def)
  from qp_on_bars_short_view [OF assms this]
  show "let r = qp_on_bars u s bars;
            short_stop = min l (low_price bar) * (1 + trailing_percent s / 100)
        in mr_on_bars u s bars = r
           \<and> intra_trade_low (state_of r) k = Some (min l (low_price bar))
           \<and> target_values k (trace (state_of r)) =
                target_values k (trace s) @ (if close_price bar \<ge> short_stop then [0] else [])
           \<and> target_data (state_of r) k =
                (if close_price bar \<ge> short_stop then 0 else target_data s k)"
    by (simp add: mr_on_bars_eq instrument_view_def Let_def split: if_splits)
qed

text \<open>
  The scenario of the claim on a slice of two instruments: \<open>A\<close> is long with
  \<open>intra_trade_high = 110\<close>, \<open>trailing_percent = 0.8\<close>, close \<open>109\<close>; the long stop is
  \<open>109.12\<close> and the exit fires. The short instrument \<open>B\<close>, reached after \<open>A\<close>, exits as
  well, at \<open>109 \<ge> 100.8\<close>. With \<open>hold_bar\<close>, closing at \<open>109.5\<close>, the long exit does not
  fire and the target of \<open>A\<close> stays \<open>1\<close>.
\<close>

theorem trailing_stop_exit_witness:
  "0 < get_pos open_strategy ''A'' \<and> intra_trade_high open_strategy ''A'' = Some 110
   \<and> max 110 (high_price example_bar) * (1 - trailing_percent open_strategy / 100) = 2728 / 25
   \<and> target_data (state_of (qp_on_bars same_readings open_strategy two_bars)) ''A'' = 0
   \<and> get_pos open_strategy ''B'' < 0 \<and> intra_trade_low open_strategy ''B'' = Some 100
   \<and> target_data (state_of (mr_on_bars same_readings open_strategy two_bars)) ''B'' = 0
   \<and> trace (state_of (qp_on_bars same_readings open_strategy two_bars)) =
        [SetTarget ''A'' 0, SetTarget ''B'' 0, RebalancePortfolio, PutEvent]
   \<and> target_data (state_of (qp_on_bars same_readings open_strategy one_hold_bar)) ''A'' = 1
   \<and> trace (state_of (qp_on_bars same_readings open_strategy one_hold_bar)) =
        [RebalancePortfolio, PutEvent]"
proof -
  let ?s1 = "state_of (qp_update_loop same_readings open_strategy two_bars)"
  let ?sa = "state_of (qp_signal_loop ?s1 [(''A'', example_bar)])"
  let ?t1 = "state_of (qp_update_loop same_readings open_strategy one_hold_bar)"
  let ?am = "warm_am [1, 2] 70"
  note defs = open_strategy_def two_bars_def one_hold_bar_def hold_bar_def concrete_defs
  have d: "distinct (map fst two_bars)" "distinct (map fst one_hold_bar)"
    by (simp_all add: two_bars_def one_hold_bar_def)
  have sa: "two_bars = [] @ (''A'', example_bar) # [(''B'', example_bar)]"
    and sb: "two_bars = [(''A'', example_bar)] @ (''B'', example_bar) # []"
    and sh: "one_hold_bar = [] @ (''A'', hold_bar) # []"
    by (simp_all add: two_bars_def one_hold_bar_def)
  have u: "qp_update_loop same_readings open_strategy two_bars = Next ?s1"
    and uh: "qp_update_loop same_readings open_strategy one_hold_bar = Next ?t1"
    by (simp_all add: defs)
  have l0: "qp_signal_loop ?s1 [] = Next ?s1" "qp_signal_loop ?t1 [] = Next ?t1"
    by simp_all
  have la: "qp_signal_loop ?s1 [(''A'', example_bar)] = Next ?sa"
    by (simp add: defs qp_step_defs)
  have a: "ams ?s1 ''A'' = Some ?am" "ams ?s1 ''B'' = Some ?am" "ams ?t1 ''A'' = Some ?am"
    by (simp_all add: defs)
  have i: "inited ?am" "atr ?am (atr_window open_strategy) \<noteq> []"
    by (simp_all add: warm_am_def)
  have pa: "0 < get_pos open_strategy ''A'' \<and> intra_trade_high open_strategy ''A'' = Some 110"
    by (simp add: open_strategy_def get_pos_def)
  have pb: "get_pos open_strategy ''B'' < 0 \<and> intra_trade_low open_strategy ''B'' = Some 100"
    by (simp add: open_strategy_def get_pos_def)
  have v: "trailing_percent open_strategy = 4 / 5"
    "high_price example_bar = 105" "low_price example_bar = 100"
    "close_price example_bar = 109" "high_price hold_bar = 110" "close_price hold_bar = 219 / 2"
    "target_data open_strategy ''A'' = 1"
    by (simp_all add: defs)
  from trailing_stop_exit [OF d(1) sa u l0(1) a(1) i, of 110 0] pa
  have ra: "target_data (state_of (qp_on_bars same_readings open_strategy two_bars)) ''A'' = 0"
    by (simp add: v Let_def)
  from trailing_stop_exit [OF d(1) sb u la a(2) i, of 0 100] pb
  have rb: "target_data (state_of (mr_on_bars same_readings open_strategy two_bars)) ''B'' = 0"
    by (simp add: v Let_def)
  from trailing_stop_exit [OF d(2) sh uh l0(2) a(3) i, of 110 0] pa
  have rh: "target_data (state_of (qp_on_bars same_readings open_strategy one_hold_bar)) ''A'' = 1"
    by (simp add: v Let_def)
  have tr: "trace (state_of (qp_on_bars same_readings open_strategy two_bars)) =
        [SetTarget ''A'' 0, SetTarget ''B'' 0, RebalancePortfolio, PutEvent]"
    "trace (state_of (qp_on_bars same_readings open_strategy one_hold_bar)) =
        [RebalancePortfolio, PutEvent]"
    by (simp_all add: defs qp_on_bars_def qp_step_defs put_event_def rebalance_portfolio_def)
  have st: "max 110 (high_price example_bar) * (1 - trailing_percent open_strategy / 100) =
              2728 / 25"
    by (simp add: v)
  from pa pb ra rb rh tr st show ?thesis by blast
qed

text \<open>
  Claim C6. For an instrument of the slice that the loop of \<open>on_bars\<close> reaches: while it is
  long, \<open>on_bars\<close> of either variant leaves \<open>intra_trade_high\<close> at the maximum of its previous
  value and the bar's high, which is not below the previous value, and \<open>intra_trade_low\<close> at
  the bar's low. While it is short, \<open>intra_trade_low\<close> is left at the minimum of its
  previous value and the bar's low, which is not above the previous value, and
  \<open>intra_trade_high\<close> at the bar's high. This holds slice after slice.
\<close>

theorem intra_trade_extremes:
  assumes "distinct (map fst bars)" and "bars = pre @ (k, bar) # post"
    and "qp_update_loop u s bars = Next s1"
    and "qp_signal_loop s1 pre = Next s2"
    and "ams s1 k = Some am" and "inited am" and "atr am (atr_window s) \<noteq> []"
  shows "(0 < get_pos s k \<and> intra_trade_high s k = Some h \<longrightarrow>
            (let r = qp_on_bars u s bars
             in mr_on_bars u s bars = r
                \<and> intra_trade_high (state_of r) k = Some (max h (high_price bar))
                \<and> h \<le> max h (high_price bar)
                \<and> intra_trade_low (state_of r) k = Some (low_price bar)))
         \<and> (get_pos s k < 0 \<and> intra_trade_low s k = Some l \<longrightarrow>
            (let r = qp_on_bars u s bars
             in mr_on_bars u s bars = r
                \<and> intra_trade_low (state_of r) k = Some (min l (low_price bar))
                \<and> min l (low_price bar) \<le> l
                \<and> intra_trade_high (state_of r) k = Some (high_price bar)))"
proof (intro conjI impI)
  assume "0 < get_pos s k \<and> intra_trade_high s k = Some h"
  then have "0 < pos_data s k" "intra_trade_high s k = Some h"
    by (simp_all add: get_pos_def)
  from qp_on_bars_long_view [OF assms this]
  show "let r = qp_on_bars u s bars
        in mr_on_bars u s bars = r
           \<and> intra_trade_high (state_of r) k = Some (max h (high_price bar))
           \<and> h \<le> max h (high_price bar)
           \<and> intra_trade_low (state_of r) k = Some (low_price bar)"
    by (simp add: mr_on_bars_eq instrument_view_def Let_def)
next
  assume "get_pos s k < 0 \<and> intra_trade_low s k = Some l"
  then have "pos_data s k < 0" "intra_trade_low s k = Some l"
    by (simp_all add: get_pos_def)
  from qp_on_bars_short_view [OF assms this]
  show "let r = qp_on_bars u s bars
        in mr_on_bars u s bars = r
           \<and> intra_trade_low (state_of r) k = Some (min l (low_price bar))
           \<and> min l (low_price bar) \<le> l
           \<and> intra_trade_high (state_of r) k = Some (high_price bar)"
    by (simp add: mr_on_bars_eq instrument_view_def Let_def)
qed

text \<open>
  Two consecutive slices on the open positions. The first bars have high \<open>105\<close> and low
  \<open>100\<close>: the high of the long \<open>A\<close> stays \<open>110\<close> and its low becomes \<open>100\<close>; the low of the
  short \<open>B\<close> stays \<open>100\<close> and its high becomes \<open>105\<close>. The next bars have high \<open>112\<close> and
  low \<open>98\<close>: the high of \<open>A\<close> rises to \<open>112\<close> and its low is reset to \<open>98\<close>; the low of
  \<open>B\<close> falls to \<open>98\<close> and its high is reset to \<open>112\<close>.
\<close>

theorem intra_trade_extremes_witness:
  "0 < get_pos open_strategy ''A'' \<and> intra_trade_high open_strategy ''A'' = Some 110
   \<and> get_pos open_strategy ''B'' < 0 \<and> intra_trade_low open_strategy ''B'' = Some 100
   \<and> intra_trade_high after_first_slice ''A'' = Some 110
   \<and> intra_trade_low after_first_slice ''A'' = Some 100
   \<and> intra_trade_low after_first_slice ''B'' = Some 100
   \<and> intra_trade_high after_first_slice ''B'' = Some 105
   \<and> 0 < get_pos after_first_slice ''A'' \<and> get_pos after_first_slice ''B'' < 0
   \<and> intra_trade_high (state_of (qp_on_bars same_readings after_first_slice two_wide_bars)) ''A''
        = Some 112
   \<and> intra_trade_low (state_of (qp_on_bars same_readings after_first_slice two_wide_bars)) ''A''
        = Some 98
   \<and> intra_trade_low (state_of (qp_on_bars same_readings after_first_slice two_wide_bars)) ''B''
        = Some 98
   \<and> intra_trade_high (state_of (qp_on_bars same_readings after_first_slice two_wide_bars)) ''B''
        = Some 112"
proof -
  let ?s1 = "state_of (qp_update_loop same_readings open_strategy two_bars)"
  let ?sa = "state_of (qp_signal_loop ?s1 [(''A'', example_bar)])"
  let ?t1 = "state_of (qp_update_loop same_readings after_first_slice two_wide_bars)"
  let ?ta = "state_of (qp_signal_loop ?t1 [(''A'', wide_bar)])"
  let ?am = "warm_am [1, 2] 70"
  note defs = open_strategy_def two_bars_def two_wide_bars_def wide_bar_def concrete_defs
  note run = qp_on_bars_def qp_step_defs put_event_def rebalance_portfolio_def
  have d: "distinct (map fst two_bars)" "distinct (map fst two_wide_bars)"
    by (simp_all add: two_bars_def two_wide_bars_def)
  have sa: "two_bars = [] @ (''A'', example_bar) # [(''B'', example_bar)]"
    and sb: "two_bars = [(''A'', example_bar)] @ (''B'', example_bar) # []"
    and wa: "two_wide_bars = [] @ (''A'', wide_bar) # [(''B'', wide_bar)]"
    and wb: "two_wide_bars = [(''A'', wide_bar)] @ (''B'', wide_bar) # []"
    by (simp_all add: two_bars_def two_wide_bars_def)
  have u: "qp_update_loop same_readings open_strategy two_bars = Next ?s1"
    by (simp add: defs)
  have l0: "qp_signal_loop ?s1 [] = Next ?s1" "qp_signal_loop ?t1 [] = Next ?t1"
    by simp_all
  have la: "qp_signal_loop ?s1 [(''A'', example_bar)] = Next ?sa"
    by (simp add: defs qp_step_defs)
  have a: "ams ?s1 ''A'' = Some ?am" "ams ?s1 ''B'' = Some ?am"
    by (simp_all add: defs)
  have i: "inited ?am" "atr ?am (atr_window open_strategy) \<noteq> []"
    "atr ?am (atr_window after_first_slice) \<noteq> []"
    by (simp_all add: warm_am_def)
  have pa: "0 < get_pos open_strategy ''A'' \<and> intra_trade_high open_strategy ''A'' = Some 110"
    by (simp add: open_strategy_def get_pos_def)
  have pb: "get_pos open_strategy ''B'' < 0 \<and> intra_trade_low open_strategy ''B'' = Some 100"
    by (simp add: open_strategy_def get_pos_def)
  have v: "high_price example_bar = 105" "low_price example_bar = 100"
    "high_price wide_bar = 112" "low_price wide_bar = 98"
    by (simp_all add: defs)
  from intra_trade_extremes [OF d(1) sa u l0(1) a(1) i(1,2), of 110 0] pa
  have fa: "intra_trade_high after_first_slice ''A'' = Some 110
            \<and> intra_trade_low after_first_slice ''A'' = Some 100"
    by (simp add: v Let_def after_first_slice_def)
  from intra_trade_extremes [OF d(1) sb u la a(2) i(1,2), of 0 100] pb
  have fb: "intra_trade_low after_first_slice ''B'' = Some 100
            \<and> intra_trade_high after_first_slice ''B'' = Some 105"
    by (simp add: v Let_def after_first_slice_def)
  have q: "0 < get_pos after_first_slice ''A''" "get_pos after_first_slice ''B'' < 0"
    by (simp_all add: after_first_slice_def get_pos_def defs run)
  have u2: "qp_update_loop same_readings after_first_slice two_wide_bars = Next ?t1"
    by (simp add: after_first_slice_def defs run)
  have la2: "qp_signal_loop ?t1 [(''A'', wide_bar)] = Next ?ta"
    by (simp add: after_first_slice_def defs run)
  have a2: "ams ?t1 ''A'' = Some ?am" "ams ?t1 ''B'' = Some ?am"
    by (simp_all add: after_first_slice_def defs run)
  from intra_trade_extremes [OF d(2) wa u2 l0(2) a2(1) i(1,3), of 110 0] q(1) fa
  have ga: "intra_trade_high (state_of (qp_on_bars same_readings after_first_slice two_wide_bars))
              ''A'' = Some 112
            \<and> intra_trade_low (state_of (qp_on_bars same_readings after_first_slice two_wide_bars))
              ''A'' = Some 98"
    by (simp add: v Let_def)
  from intra_trade_extremes [OF d(2) wb u2 la2 a2(2) i(1,3), of 0 100] q(2) fb
  have gb: "intra_trade_low (state_of (qp_on_bars same_readings after_first_slice two_wide_bars))
              ''B'' = Some 98
            \<and> intra_trade_high (state_of (qp_on_bars same_readings after_first_slice two_wide_bars))
              ''B'' = Some 112"
    by (simp add: v Let_def)
  from pa pb fa fb q ga gb show ?thesis by blast
qed

text \<open>
  Claim C7. For an instrument whose current position is not zero, one pass of the loop
  body of either variant, however it ends, either makes no \<open>set_target\<close> call and leaves
  every target as it was, or makes the single call \<open>set_target(vt_symbol, 0)\<close>, and that
  only when the trailing stop of the open side is crossed. No other target is issued: the
  entry branch is not entered.
\<close>

theorem open_position_only_exits:
  assumes "get_pos s k \<noteq> 0"
  shows "(let r = qp_on_bars_symbol s k bar
          in mr_on_bars_symbol s k bar = r
             \<and> ((trace (state_of r) = trace s \<and> target_data (state_of r) = target_data s)
                \<or> (trace (state_of r) = trace s @ [SetTarget k 0]
                    \<and> target_data (state_of r) = (target_data s)(k := 0)
                    \<and> ((0 < get_pos s k \<and>
                         (\<exists>h. intra_trade_high s k = Some h \<and>
                            close_price bar \<le>
                              max h (high_price bar) * (1 - trailing_percent s / 100)))
                      \<or> (get_pos s k < 0 \<and>
                         (\<exists>l. intra_trade_low s k = Some l \<and>
                            close_price bar \<ge>
                              min l (low_price bar) * (1 + trailing_percent s / 100)))))))"
  using assms by (auto simp add: mr_on_bars_symbol_eq qp_step_defs split: option.splits)

theorem open_position_only_exits_witness:
  "get_pos open_strategy ''A'' \<noteq> 0
   \<and> rsi (warm_am [1, 2] 70) (rsi_window open_strategy) > rsi_buy open_strategy
   \<and> trace (state_of (qp_on_bars_symbol open_strategy ''A'' hold_bar)) = trace open_strategy
   \<and> target_data (state_of (qp_on_bars_symbol open_strategy ''A'' hold_bar)) =
       target_data open_strategy"
proof -
  have h: "get_pos open_strategy ''A'' \<noteq> 0"
    by (simp add: open_strategy_def get_pos_def)
  have v: "rsi (warm_am [1, 2] 70) (rsi_window open_strategy) > rsi_buy open_strategy"
    by (simp add: open_strategy_def concrete_defs)
  have n: "trace (state_of (qp_on_bars_symbol open_strategy ''A'' hold_bar)) \<noteq>
             trace open_strategy @ [SetTarget ''A'' 0]"
    by (simp add: open_strategy_def hold_bar_def concrete_defs qp_step_defs)
  from open_position_only_exits [OF h, of hold_bar] n h v show ?thesis
    by (simp add: Let_def)
qed

section \<open>Instruments without a decision\<close>

text \<open>
  Claim C10. Let the bars of a slice have distinct instruments (they are the items of a
  dict). If an instrument of the slice is flat with its ATR at most its ATR moving average,
  or long with the close above its long stop, or short with the close below its short
  stop, then \<open>on_bars\<close> of either variant makes no \<open>set_target\<close> call for it and leaves
  its target as it was. Every instrument receives at most one \<open>set_target\<close> call in the
  slice.
\<close>

theorem no_decision_no_call:
  assumes "distinct (map fst bars)" and "map_of bars k = Some bar"
    and "ams (state_of (qp_update_loop u s bars)) k = Some am"
    and "(get_pos s k = 0
            \<and> last (atr am (atr_window s)) \<le>
                mean (tail_slice (atr_ma_window s) (atr am (atr_window s))))
         \<or> (0 < get_pos s k \<and> intra_trade_high s k = Some h
            \<and> \<not> close_price bar \<le> max h (high_price bar) * (1 - trailing_percent s / 100))
         \<or> (get_pos s k < 0 \<and> intra_trade_low s k = Some l
            \<and> \<not> close_price bar \<ge> min l (low_price bar) * (1 + trailing_percent s / 100))"
  shows "target_calls k (trace (state_of (qp_on_bars u s bars))) = target_calls k (trace s)
         \<and> target_data (state_of (qp_on_bars u s bars)) k = target_data s k
         \<and> (\<forall>j. target_calls j (trace (state_of (qp_on_bars u s bars))) \<le>
                  target_calls j (trace s) + 1)
         \<and> mr_on_bars u s bars = qp_on_bars u s bars"
proof -
  let ?s1 = "state_of (qp_update_loop u s bars)"
  note fr = qp_update_loop_frame [of u s bars]
  have loop: "target_data (state_of (qp_signal_loop ?s1 bars)) k = target_data ?s1 k
      \<and> target_calls k (trace (state_of (qp_signal_loop ?s1 bars))) = target_calls k (trace ?s1)"
    using assms(4)
  proof (elim disjE conjE)
    assume "get_pos s k = 0"
      and "last (atr am (atr_window s)) \<le>
             mean (tail_slice (atr_ma_window s) (atr am (atr_window s)))"
    then have "pos_data ?s1 k = 0"
      "last (atr am (atr_window ?s1)) \<le>
         mean (tail_slice (atr_ma_window ?s1) (atr am (atr_window ?s1)))"
      by (simp_all add: fr get_pos_def)
    from qp_signal_loop_gate_closed [OF assms(3) this] show ?thesis .
  next
    assume "0 < get_pos s k" and "intra_trade_high s k = Some h"
      and "\<not> close_price bar \<le> max h (high_price bar) * (1 - trailing_percent s / 100)"
    then have "0 < pos_data ?s1 k" "intra_trade_high ?s1 k = Some h"
      "\<not> close_price bar \<le> max h (high_price bar) * (1 - trailing_percent ?s1 / 100)"
      by (simp_all add: fr get_pos_def)
    from qp_signal_loop_long_hold [OF assms(1,2) this] show ?thesis .
  next
    assume "get_pos s k < 0" and "intra_trade_low s k = Some l"
      and "\<not> close_price bar \<ge> min l (low_price bar) * (1 + trailing_percent s / 100)"
    then have "pos_data ?s1 k < 0" "intra_trade_low ?s1 k = Some l"
      "\<not> close_price bar \<ge> min l (low_price bar) * (1 + trailing_percent ?s1 / 100)"
      by (simp_all add: fr get_pos_def)
    from qp_signal_loop_short_hold [OF assms(1,2) this] show ?thesis .
  qed
  have quiet: "target_calls k (trace (state_of (qp_on_bars u s bars))) = target_calls k (trace s)
      \<and> target_data (state_of (qp_on_bars u s bars)) k = target_data s k"
    using qp_on_bars_after_loops [of u s bars] loop fr(1,2) by auto
  have once: "\<forall>j. target_calls j (trace (state_of (qp_on_bars u s bars))) \<le>
      target_calls j (trace s) + 1"
  proof
    fix j
    from qp_signal_loop_calls_le [OF assms(1), of j ?s1]
    have "target_calls j (trace (state_of (qp_signal_loop ?s1 bars))) \<le>
            target_calls j (trace s) + 1"
      by (simp add: fr)
    with qp_on_bars_after_loops [of u s bars] fr(2)
    show "target_calls j (trace (state_of (qp_on_bars u s bars))) \<le>
            target_calls j (trace s) + 1"
      by auto
  qed
  from quiet once show ?thesis by (simp add: mr_on_bars_eq)
qed

theorem no_decision_no_call_witness:
  "distinct (map fst one_hold_bar) \<and> 0 < get_pos open_strategy ''A''
   \<and> \<not> close_price hold_bar \<le>
         max 110 (high_price hold_bar) * (1 - trailing_percent open_strategy / 100)
   \<and> target_calls ''A'' (trace (state_of (qp_on_bars same_readings open_strategy one_hold_bar))) = 0
   \<and> target_data (state_of (qp_on_bars same_readings open_strategy one_hold_bar)) ''A'' = 1
   \<and> distinct (map fst one_bar) \<and> get_pos calm_strategy ''A'' = 0
   \<and> target_calls ''A'' (trace (state_of (qp_on_bars same_readings calm_strategy one_bar))) = 0"
proof -
  have d: "distinct (map fst one_hold_bar)" "distinct (map fst one_bar)"
    by (simp_all add: one_hold_bar_def one_bar_def)
  have m: "map_of one_hold_bar ''A'' = Some hold_bar" "map_of one_bar ''A'' = Some example_bar"
    by (simp_all add: one_hold_bar_def one_bar_def)
  have a: "ams (state_of (qp_update_loop same_readings open_strategy one_hold_bar)) ''A'' =
             Some (warm_am [1, 2] 70)"
    by (simp add: open_strategy_def one_hold_bar_def concrete_defs)
  have a': "ams (state_of (qp_update_loop same_readings calm_strategy one_bar)) ''A'' =
             Some (warm_am [2, 1] 70)"
    by (simp add: calm_strategy_def one_bar_def concrete_defs)
  have q: "0 < get_pos open_strategy ''A''" "intra_trade_high open_strategy ''A'' = Some 110"
    "\<not> close_price hold_bar \<le>
        max 110 (high_price hold_bar) * (1 - trailing_percent open_strategy / 100)"
    by (simp_all add: open_strategy_def get_pos_def hold_bar_def concrete_defs)
  have q': "get_pos calm_strategy ''A'' = 0"
    "last (atr (warm_am [2, 1] 70) (atr_window calm_strategy)) \<le>
       mean (tail_slice (atr_ma_window calm_strategy)
         (atr (warm_am [2, 1] 70) (atr_window calm_strategy)))"
    by (simp_all add: calm_strategy_def get_pos_def concrete_defs)
  have v: "trace open_strategy = []" "target_data open_strategy ''A'' = 1"
    "trace calm_strategy = []"
    by (simp_all add: open_strategy_def calm_strategy_def concrete_defs)
  from q have c: "(get_pos open_strategy ''A'' = 0
        \<and> last (atr (warm_am [1, 2] 70) (atr_window open_strategy)) \<le>
            mean (tail_slice (atr_ma_window open_strategy)
              (atr (warm_am [1, 2] 70) (atr_window open_strategy))))
      \<or> (0 < get_pos open_strategy ''A'' \<and> intra_trade_high open_strategy ''A'' = Some 110
         \<and> \<not> close_price hold_bar \<le>
               max 110 (high_price hold_bar) * (1 - trailing_percent open_strategy / 100))
      \<or> (get_pos open_strategy ''A'' < 0 \<and> intra_trade_low open_strategy ''A'' = Some 0
         \<and> \<not> close_price hold_bar \<ge>
               min 0 (low_price hold_bar) * (1 + trailing_percent open_strategy / 100))"
    by blast
  from q' have c': "(get_pos calm_strategy ''A'' = 0
        \<and> last (atr (warm_am [2, 1] 70) (atr_window calm_strategy)) \<le>
            mean (tail_slice (atr_ma_window calm_strategy)
              (atr (warm_am [2, 1] 70) (atr_window calm_strategy))))
      \<or> (0 < get_pos calm_strategy ''A'' \<and> intra_trade_high calm_strategy ''A'' = Some 0
         \<and> \<not> close_price example_bar \<le>
               max 0 (high_price example_bar) * (1 - trailing_percent calm_strategy / 100))
      \<or> (get_pos calm_strategy ''A'' < 0 \<and> intra_trade_low calm_strategy ''A'' = Some 0
         \<and> \<not> close_price example_bar \<ge>
               min 0 (low_price example_bar) * (1 + trailing_percent calm_strategy / 100))"
    by blast
  from no_decision_no_call [OF d(1) m(1) a c] v
  have r: "target_calls ''A''
             (trace (state_of (qp_on_bars same_readings open_strategy one_hold_bar))) = 0
           \<and> target_data (state_of (qp_on_bars same_readings open_strategy one_hold_bar)) ''A'' = 1"
    by simp
  from no_decision_no_call [OF d(2) m(2) a' c'] v
  have r': "target_calls ''A''
              (trace (state_of (qp_on_bars same_readings calm_strategy one_bar))) = 0"
    by simp
  from d q q' r r' show ?thesis by blast
qed

section \<open>The two variants\<close>

lemma empty_walk_none: "fold (\<lambda>(vt_symbol, target) r. r) ss (None :: real option) = None"
  by (induction ss) auto

lemma portfolio_return_list_ok:
  assumes "\<forall>(k, v) \<in> set ss. k \<in> dom (daily_prices s) \<and> k \<in> fst ` set (unit_weights s)"
  shows "portfolio_return_list s ss acc =
           Inr (acc @ map (\<lambda>(k, v). map (\<lambda>x. x * the (map_of (unit_weights s) k))
                                      (the (daily_prices s k))) ss)"
  using assms
proof (induction ss arbitrary: acc)
  case Nil
  then show ?case by simp
next
  case (Cons p ss)
  obtain k v where p: "p = (k, v)" by (cases p)
  from Cons.prems p obtain prices where d: "daily_prices s k = Some prices"
    by auto
  from Cons.prems p have "k \<in> fst ` set (unit_weights s)"
    by auto
  then obtain w where w: "map_of (unit_weights s) k = Some w"
    by (metis domD dom_map_of_conv_image_fst)
  from Cons.prems have "\<forall>(k, v) \<in> set ss. k \<in> dom (daily_prices s) \<and> k \<in> fst ` set (unit_weights s)"
    by simp
  from Cons.IH [OF this] d w show ?case
    by (simp add: p)
qed

lemma add_series_nil: "add_series xs [] = xs"
  by (cases xs) simp_all

lemma add_series_same_length:
  "length xs = length ys \<Longrightarrow>
   length (add_series xs ys) = length xs
   \<and> (\<forall>i < length xs. add_series xs ys ! i = xs ! i + ys ! i)"
proof (induction xs ys rule: add_series.induct)
  case (1 ys)
  then show ?case by simp
next
  case (2 x xs)
  then show ?case by simp
next
  case (3 x xs y ys)
  then show ?case by (auto simp: nth_Cons split: nat.splits)
qed

lemma concat_sum_rows:
  assumes "cs \<noteq> []" and "\<forall>c \<in> set cs. length c = n"
  shows "concat_sum cs = map (\<lambda>t. sum_list (map (\<lambda>c. c ! t) cs)) [0..<n]"
  using assms
proof (induction cs)
  case Nil
  then show ?case by simp
next
  case (Cons c cs)
  from Cons.prems have len: "length c = n" by simp
  show ?case
  proof (cases "cs = []")
    case True
    have "c = map (\<lambda>t. c ! t) [0..<n]"
      using len map_nth [of c] by simp
    with True show ?thesis by (simp add: add_series_nil)
  next
    case False
    from Cons.prems have "\<forall>c \<in> set cs. length c = n" by simp
    from Cons.IH [OF False this]
    have ih: "concat_sum cs = map (\<lambda>t. sum_list (map (\<lambda>c. c ! t) cs)) [0..<n]" .
    then have l: "length c = length (concat_sum cs)"
      using len by simp
    from add_series_same_length [OF l] len ih
    show ?thesis
      by (intro nth_equalityI) simp_all
  qed
qed

lemma weighted_rows:
  assumes "ss \<noteq> []" and "0 < n"
    and "\<forall>(k, v) \<in> set ss. length (the (daily_prices s k)) = n"
  shows "concat_sum (map (\<lambda>(k, v). map (\<lambda>x. x * the (map_of (unit_weights s) k))
                                     (the (daily_prices s k))) ss) =
         map (\<lambda>t. sum_list
                    (map (\<lambda>(k, v). the (daily_prices s k) ! t * the (map_of (unit_weights s) k)) ss))
           [0..<n]"
proof -
  let ?g = "\<lambda>(k, v). map (\<lambda>x. x * the (map_of (unit_weights s) k)) (the (daily_prices s k))"
  have "\<forall>c \<in> set (map ?g ss). length c = n"
    using assms(3) by (auto simp: case_prod_beta)
  with assms(1) have "concat_sum (map ?g ss) =
      map (\<lambda>t. sum_list (map (\<lambda>c. c ! t) (map ?g ss))) [0..<n]"
    by (intro concat_sum_rows) simp_all
  also have "\<dots> = map (\<lambda>t. sum_list
      (map (\<lambda>(k, v). the (daily_prices s k) ! t * the (map_of (unit_weights s) k)) ss)) [0..<n]"
  proof (rule map_cong [OF refl])
    fix t
    assume "t \<in> set [0..<n]"
    then have t: "t < n" by simp
    have "map (\<lambda>c. c ! t) (map ?g ss) =
          map (\<lambda>(k, v). the (daily_prices s k) ! t * the (map_of (unit_weights s) k)) ss"
      unfolding map_map by (rule map_cong [OF refl]) (use assms(3) t in \<open>auto\<close>)
    then show "sum_list (map (\<lambda>c. c ! t) (map ?g ss)) =
        sum_list (map (\<lambda>(k, v). the (daily_prices s k) ! t * the (map_of (unit_weights s) k)) ss)"
      by (rule arg_cong)
  qed
  finally show ?thesis .
qed

text \<open>
  Claim C9, as amended. \<open>MeanReversionStrategy.calculate_unit_var\<close> returns \<open>None\<close> in
  every state. \<open>QuadProgStrategy.calculate_unit_var\<close>, when every instrument of
  \<open>signal_strength\<close> has a unit weight and a series of the same positive length and the span
  \<open>lookback_var\<close> is at least \<open>1\<close>, returns the last point of the exponentially weighted
  standard deviation, with span \<open>lookback_var\<close>, of the per-period weighted sum of the
  per-instrument series. The loop bodies and \<open>on_bars\<close> of the two variants are the same
  function of the state and the bar slice. The variants also differ in \<open>on_init\<close>:
  \<open>QuadProgStrategy.on_init\<close> leaves the state as it is, while
  \<open>MeanReversionStrategy.on_init\<close> sets the thresholds to \<open>50 + rsi_entry\<close> and
  \<open>50 - rsi_entry\<close>.
\<close>

theorem variants_differ_in_unit_var:
  "mr_calculate_unit_var s = None
   \<and> (signal_strength s \<noteq> [] \<and> 0 < n \<and> 1 \<le> lookback_var s
      \<and> (\<forall>(k, v) \<in> set (signal_strength s).
            (\<exists>p. daily_prices s k = Some p \<and> length p = n)
            \<and> k \<in> fst ` set (unit_weights s))
      \<longrightarrow> qp_calculate_unit_var s =
            Inr (ewm_std_last (lookback_var s) (weighted_sum_series s n)))
   \<and> mr_on_bars_symbol s k bar = qp_on_bars_symbol s k bar
   \<and> mr_on_bars u s bars = qp_on_bars u s bars
   \<and> qp_on_init s = s
   \<and> rsi_buy (mr_on_init s) = 50 + rsi_entry s
   \<and> rsi_sell (mr_on_init s) = 50 - rsi_entry s"
proof -
  have a: "mr_calculate_unit_var s = None"
    by (simp add: mr_calculate_unit_var_def empty_walk_none)
  have b: "signal_strength s \<noteq> [] \<and> 0 < n \<and> 1 \<le> lookback_var s
      \<and> (\<forall>(k, v) \<in> set (signal_strength s).
            (\<exists>p. daily_prices s k = Some p \<and> length p = n)
            \<and> k \<in> fst ` set (unit_weights s))
      \<longrightarrow> qp_calculate_unit_var s =
            Inr (ewm_std_last (lookback_var s) (weighted_sum_series s n))"
  proof (intro impI, elim conjE)
    assume ne: "signal_strength s \<noteq> []" and n: "0 < n" and span: "1 \<le> lookback_var s"
      and keys: "\<forall>(k, v) \<in> set (signal_strength s).
            (\<exists>p. daily_prices s k = Some p \<and> length p = n)
            \<and> k \<in> fst ` set (unit_weights s)"
    from keys have k1: "\<forall>(k, v) \<in> set (signal_strength s).
        k \<in> dom (daily_prices s) \<and> k \<in> fst ` set (unit_weights s)"
      by auto
    from keys have k2: "\<forall>(k, v) \<in> set (signal_strength s).
        length (the (daily_prices s k)) = n"
      by auto
    note rows = weighted_rows [OF ne n k2]
    have nonempty: "weighted_sum_series s n \<noteq> []"
      using n by (simp add: weighted_sum_series_def)
    from portfolio_return_list_ok [OF k1, of "[]"] ne span nonempty rows
    show "qp_calculate_unit_var s =
            Inr (ewm_std_last (lookback_var s) (weighted_sum_series s n))"
      by (simp add: qp_calculate_unit_var_def Let_def weighted_sum_series_def)
  qed
  have c: "qp_on_init s = s \<and> rsi_buy (mr_on_init s) = 50 + rsi_entry s
      \<and> rsi_sell (mr_on_init s) = 50 - rsi_entry s"
    by (simp add: qp_on_init_def mr_on_init_def)
  from a b c show ?thesis by (simp only: mr_on_bars_symbol_eq mr_on_bars_eq simp_thms)
qed

text \<open>
  Two instruments with weights \<open>1/4\<close> and \<open>3/4\<close> and prices \<open>[4, 8]\<close> and \<open>[4, 12]\<close>: the
  weighted sum is \<open>[4, 11]\<close>, its exponentially weighted variance at the last point is
  \<open>49/2\<close>, and the value returned is the square root of that.
\<close>

theorem variants_differ_in_unit_var_witness:
  "mr_calculate_unit_var var_strategy = None
   \<and> signal_strength var_strategy \<noteq> [] \<and> 1 \<le> lookback_var var_strategy
   \<and> weighted_sum_series var_strategy 2 = [4, 11]
   \<and> qp_calculate_unit_var var_strategy = Inr (Some (sqrt (49 / 2)))
   \<and> mr_on_bars same_readings half_warm_strategy two_bars =
       qp_on_bars same_readings half_warm_strategy two_bars"
proof -
  have v: "signal_strength var_strategy = [(''A'', 1), (''B'', 3)]"
    "unit_weights var_strategy = [(''A'', 1 / 4), (''B'', 3 / 4)]"
    "daily_prices var_strategy ''A'' = Some [4, 8]"
    "daily_prices var_strategy ''B'' = Some [4, 12]"
    "lookback_var var_strategy = 30"
    by (simp_all add: var_strategy_def weighted_strategy_def example_strategy_def)
  have w: "weighted_sum_series var_strategy 2 = [4, 11]"
    by (simp add: weighted_sum_series_def v eval_nat_numeral)
  have e: "ewm_std_last 30 [4, 11] = Some (sqrt (49 / 2))"
    by (simp add: ewm_std_last_def ewm_var_last_def ewm_weights_def Let_def eval_nat_numeral
        of_rat_divide)
  have h: "signal_strength var_strategy \<noteq> [] \<and> (0::nat) < 2 \<and> 1 \<le> lookback_var var_strategy
      \<and> (\<forall>(k, v) \<in> set (signal_strength var_strategy).
            (\<exists>p. daily_prices var_strategy k = Some p \<and> length p = 2)
            \<and> k \<in> fst ` set (unit_weights var_strategy))"
    by (simp add: v)
  from variants_differ_in_unit_var [of var_strategy 2 _ _ same_readings two_bars] h
  have "mr_calculate_unit_var var_strategy = None
        \<and> qp_calculate_unit_var var_strategy = Inr (Some (sqrt (49 / 2)))"
    by (simp only: w e v simp_thms) simp
  moreover from variants_differ_in_unit_var
    [of half_warm_strategy 2 _ _ same_readings two_bars]
  have "mr_on_bars same_readings half_warm_strategy two_bars =
        qp_on_bars same_readings half_warm_strategy two_bars"
    by blast
  ultimately show ?thesis using w v by simp
qed

text \<open>
  Claim C9 as stated fails: the variants do not differ only in their weighting and VaR
  formula. From one and the same configuration, with entry offset \<open>16\<close>, \<open>on_init\<close> of
  \<open>MeanReversionStrategy\<close> sets \<open>rsi_buy\<close> to \<open>66\<close> while \<open>on_init\<close> of \<open>QuadProgStrategy\<close>
  leaves it at \<open>0\<close>, and on the same slice, with RSI \<open>50\<close>, the first variant issues the
  target \<open>0\<close> and the second the target \<open>1\<close>.
\<close>

theorem variants_counterexample:
  "rsi_buy (mr_on_init shared_config) = 66 \<and> rsi_buy (qp_on_init shared_config) = 0
   \<and> trace (state_of (mr_on_bars same_readings (mr_on_init shared_config) one_bar)) =
        [SetTarget ''A'' 0, RebalancePortfolio, PutEvent]
   \<and> trace (state_of (qp_on_bars same_readings (qp_on_init shared_config) one_bar)) =
        [SetTarget ''A'' 1, RebalancePortfolio, PutEvent]"
  by (simp add: mr_on_bars_eq)
    (simp add: shared_config_def one_bar_def qp_on_init_def concrete_defs qp_on_bars_def
      qp_step_defs put_event_def rebalance_portfolio_def)

end
